theory Spec2Isabelle
  imports Complex_Main
begin

section \<open>Time, timers and the observable world\<close>

text \<open>
  The program is single-threaded JavaScript. \<^verbatim>\<open>Date.now()\<close> is an integer number of
  milliseconds; synchronous code is taken to run within one clock reading, and time passes
  only where the code awaits (a timer, or the platform's upload operation).

  A delay handed to \<^verbatim>\<open>setTimeout\<close> is a JavaScript number: an integer here, or
  \<^verbatim>\<open>Infinity\<close> (what \<^verbatim>\<open>Math.min()\<close> of no arguments leads to).
\<close>

datatype js_number = Num int | Infinity

text \<open>
  Node's \<^verbatim>\<open>setTimeout\<close> replaces a delay below 1 or above 2147483647 (and any non-finite
  one) by 1. Timers are taken to fire exactly when due.
\<close>

fun setTimeout_delay :: "js_number \<Rightarrow> int" where
  "setTimeout_delay (Num d) = (if 1 \<le> d \<and> d \<le> 2147483647 then d else 1)"
| "setTimeout_delay Infinity = 1"

datatype sleep_kind = RateLimitWait | Backoff | RandomDelay | Stagger

text \<open>
  The values the analytics object holds: the statistics of one platform, and one entry
  of the upload history. \<^verbatim>\<open>successRate\<close> is a quotient of two small counters; it is kept
  as a rational number.
\<close>

record PlatformPerformance =
  successRate :: rat
  totalAttempts :: nat
  lastUpload :: "int option"
  commonErrors :: "string \<rightharpoonup> nat"

record BatchSummary =
  timestamp :: int
  clipsCount :: nat
  batchPlatforms :: "string list"
  batchResults :: "(string \<times> string list) list"
  batchFailed :: "string list"

text \<open>
  What \<^verbatim>\<open>upload_analytics.json\<close> holds, and what an analytics object amounts to once
  every reference in it is followed.
\<close>

record AnalyticsValue =
  v_totalUploads :: nat
  v_successfulUploads :: "string \<rightharpoonup> nat"
  v_failedUploads :: "string \<rightharpoonup> nat"
  v_uploadHistory :: "BatchSummary list"
  v_platformPerformance :: "string \<rightharpoonup> PlatformPerformance"

type_synonym addr = nat

datatype event =
    UploadSuccess string string string
  | UploadFailed string string "string option"
  | BatchComplete

text \<open>
  The world a run acts on: the clock; the log of every call of a platform's
  \<^verbatim>\<open>upload(clip)\<close> (platform name and clip title); the log of every call of
  \<^verbatim>\<open>uploadWithRetry\<close> made by the batch loop (registry key and clip title); the log of every
  \<^verbatim>\<open>sleep(ms)\<close> with the place it was called from; the number of \<^verbatim>\<open>Math.random()\<close> draws
  made so far; the events emitted (their listeners are taken to return); the object store, one component for each kind of
  nested object of an analytics object, with the next free address; and the contents of
  \<^verbatim>\<open>upload_analytics.json\<close>, if the file exists.
\<close>

record world =
  clock :: int
  invocations :: "(string \<times> string) list"
  attempts :: "(string \<times> string) list"
  sleeps :: "(sleep_kind \<times> js_number) list"
  draws :: nat
  events :: "event list"
  counters :: "addr \<Rightarrow> (string \<rightharpoonup> nat)"
  histories :: "addr \<Rightarrow> BatchSummary list"
  performances :: "addr \<Rightarrow> (string \<rightharpoonup> PlatformPerformance)"
  nextAddr :: addr
  analyticsFile :: "AnalyticsValue option"

definition sleep :: "sleep_kind \<Rightarrow> js_number \<Rightarrow> world \<Rightarrow> world" where
  "sleep k ms w = w\<lparr>clock := clock w + setTimeout_delay ms, sleeps := sleeps w @ [(k, ms)]\<rparr>"

text \<open>Time passing between two calls, outside the code under study.\<close>

definition advance :: "nat \<Rightarrow> world \<Rightarrow> world" where
  "advance d w = w\<lparr>clock := clock w + int d\<rparr>"

definition world0 :: world where
  "world0 = \<lparr>clock = 0, invocations = [], attempts = [], sleeps = [], draws = 0, events = [],
     counters = (\<lambda>a. Map.empty), histories = (\<lambda>a. []), performances = (\<lambda>a. Map.empty),
     nextAddr = 0, analyticsFile = None\<rparr>"

section \<open>RateLimiter\<close>

record RateLimiter =
  maxRequests :: int
  windowMs :: int
  requests :: "int list"

text \<open>\<^verbatim>\<open>new RateLimiter()\<close>: 50 requests per hour.\<close>

definition new_RateLimiter :: RateLimiter where
  "new_RateLimiter = \<lparr>maxRequests = 50, windowMs = 3600000, requests = []\<rparr>"

text \<open>\<^verbatim>\<open>Math.min(...xs)\<close>: \<^verbatim>\<open>Infinity\<close> on no arguments.\<close>

fun Math_min :: "int list \<Rightarrow> js_number" where
  "Math_min [] = Infinity"
| "Math_min (x # xs) = (case Math_min xs of Infinity \<Rightarrow> Num x | Num y \<Rightarrow> Num (min x y))"

text \<open>\<^verbatim>\<open>this.windowMs - (now - oldestRequest)\<close>\<close>

fun waitTime :: "int \<Rightarrow> int \<Rightarrow> js_number \<Rightarrow> js_number" where
  "waitTime window now (Num oldestRequest) = Num (window - (now - oldestRequest))"
| "waitTime window now Infinity = Infinity"

text \<open>
  \<^verbatim>\<open>checkLimit()\<close>: reads the clock once, prunes, sleeps when the window is full, and
  then pushes the reading taken before the sleep.
\<close>

definition checkLimit :: "RateLimiter \<Rightarrow> world \<Rightarrow> RateLimiter \<times> world" where
  "checkLimit rl w =
     (let now = clock w;
          kept = filter (\<lambda>time. now - time < windowMs rl) (requests rl);
          w' = (if int (length kept) \<ge> maxRequests rl
                then sleep RateLimitWait (waitTime (windowMs rl) now (Math_min kept)) w
                else w)
      in (rl\<lparr>requests := kept @ [now]\<rparr>, w'))"

text \<open>One acquisition after \<open>gap\<close> milliseconds of other activity.\<close>

definition acquire_after :: "nat \<Rightarrow> RateLimiter \<times> world \<Rightarrow> RateLimiter \<times> world" where
  "acquire_after gap s = checkLimit (fst s) (advance gap (snd s))"

section \<open>The retry driver\<close>

record VideoClip =
  filePath :: string
  title :: string
  description :: string
  tags :: "string list"
  privacy :: string
  thumbnailPath :: "string option"
  scheduleTime :: "int option"
  platforms :: "string list"
  uploadUrls :: "(string \<times> string) list"
  createdAt :: int

record UploadResult =
  platform :: string
  success :: bool
  url :: "string option"
  error :: "string option"
  uploadTime :: int
  retryCount :: nat

text \<open>\<^verbatim>\<open>new UploadResult(platform, success, url = null, error = null)\<close>\<close>

definition new_UploadResult ::
  "string \<Rightarrow> bool \<Rightarrow> string option \<Rightarrow> string option \<Rightarrow> world \<Rightarrow> UploadResult" where
  "new_UploadResult p s u e w =
     \<lparr>platform = p, success = s, url = u, error = e, uploadTime = clock w, retryCount = 0\<rparr>"

text \<open>
  What one call of a platform's \<^verbatim>\<open>upload(clip)\<close> does: it throws an error with a
  message, or returns a value (\<open>None\<close> for \<^verbatim>\<open>undefined\<close> or \<^verbatim>\<open>null\<close>). The operation is
  the environment's: it is given the clip and the number of upload calls made before
  this one, and answers with the reply and the time the call took.
\<close>

datatype reply = Throws string | Returns "string option"

type_synonym upload_op = "VideoClip \<Rightarrow> nat \<Rightarrow> reply \<times> nat"

text \<open>\<^verbatim>\<open>if (result)\<close> on a string or \<^verbatim>\<open>undefined\<close>\<close>

fun truthy :: "string option \<Rightarrow> bool" where
  "truthy None = False"
| "truthy (Some s) = (s \<noteq> [])"

record PlatformUploader =
  platformName :: string
  rateLimiter :: RateLimiter

definition new_PlatformUploader :: "string \<Rightarrow> PlatformUploader" where
  "new_PlatformUploader name = \<lparr>platformName = name, rateLimiter = new_RateLimiter\<rparr>"

text \<open>
  The \<^verbatim>\<open>for (let attempt = 1; attempt <= maxRetries; attempt++)\<close> loop of
  \<^verbatim>\<open>uploadWithRetry\<close>, from a given \<open>attempt\<close> and \<open>lastError\<close> (the message of the last
  error caught, \<open>None\<close> while \<^verbatim>\<open>lastError\<close> is \<^verbatim>\<open>null\<close>).
\<close>

function retry_loop ::
  "upload_op \<Rightarrow> VideoClip \<Rightarrow> nat \<Rightarrow> nat \<Rightarrow> string option \<Rightarrow> PlatformUploader \<Rightarrow> world
     \<Rightarrow> UploadResult \<times> PlatformUploader \<times> world" where
  "retry_loop upload clip maxRetries attempt lastError up w =
     (if attempt \<le> maxRetries then
        (let (rl, w1) = checkLimit (rateLimiter up) w;
             up1 = up\<lparr>rateLimiter := rl\<rparr>;
             (r, took) = upload clip (length (invocations w1));
             w2 = w1\<lparr>invocations := invocations w1 @ [(platformName up, title clip)],
                     clock := clock w1 + int took\<rparr>
         in case r of
              Returns result \<Rightarrow>
                if truthy result
                then (new_UploadResult (platformName up) True result None w2, up1, w2)
                else retry_loop upload clip maxRetries (attempt + 1) lastError up1 w2
            | Throws message \<Rightarrow>
                retry_loop upload clip maxRetries (attempt + 1) (Some message) up1
                  (if attempt < maxRetries
                   then sleep Backoff (Num (2 ^ attempt * 1000)) w2
                   else w2))
      else (new_UploadResult (platformName up) False None lastError w, up, w))"
  by pat_completeness auto
termination
  by (relation "measure (\<lambda>(upload, clip, maxRetries, attempt, lastError, up, w).
        Suc maxRetries - attempt)") auto

definition uploadWithRetry ::
  "upload_op \<Rightarrow> VideoClip \<Rightarrow> nat \<Rightarrow> PlatformUploader \<Rightarrow> world
     \<Rightarrow> UploadResult \<times> PlatformUploader \<times> world" where
  "uploadWithRetry upload clip maxRetries up w = retry_loop upload clip maxRetries 1 None up w"

section \<open>Clip validation\<close>

text \<open>
  The file system as \<^verbatim>\<open>fs.existsSync\<close> and \<^verbatim>\<open>fs.statSync\<close> see it: a path that exists
  has a size in bytes.
\<close>

type_synonym filesystem = "string \<Rightarrow> nat option"

text \<open>
  \<^verbatim>\<open>String.prototype.trim\<close> on a string of 8-bit characters: tab, line feed, vertical
  tab, form feed, carriage return, space and no-break space are stripped at both ends.
\<close>

definition js_whitespace :: "char \<Rightarrow> bool" where
  "js_whitespace c = (of_char c \<in> {9, 10, 11, 12, 13, 32, 160 :: nat})"

definition trim :: "string \<Rightarrow> string" where
  "trim s = rev (dropWhile js_whitespace (rev (dropWhile js_whitespace s)))"

datatype validation_error = FileNotFound string | TitleRequired | FileTooLarge nat

text \<open>Decimal digits of a natural number, and \<^verbatim>\<open>(size / (1024 * 1024)).toFixed(2)\<close>.\<close>

definition digit_char :: "nat \<Rightarrow> char" where
  "digit_char d = char_of (of_char CHR ''0'' + d)"

function show_nat :: "nat \<Rightarrow> string" where
  "show_nat n = (if n < 10 then [digit_char n] else show_nat (n div 10) @ [digit_char (n mod 10)])"
  by pat_completeness auto
termination
  by (relation "measure (\<lambda>n. n)") auto

definition toFixed2_MB :: "nat \<Rightarrow> string" where
  "toFixed2_MB bytes =
     (let n = (200 * bytes + 1048576) div 2097152
      in show_nat (n div 100) @ ''.'' @ [digit_char (n mod 100 div 10), digit_char (n mod 10)])"

fun message :: "validation_error \<Rightarrow> string" where
  "message (FileNotFound path) = ''File not found: '' @ path"
| "message TitleRequired = ''Title is required''"
| "message (FileTooLarge bytes) = ''File too large: '' @ toFixed2_MB bytes @ ''MB (max: 500MB)''"

text \<open>\<^verbatim>\<open>VideoClip.validate()\<close>: \<open>Inl\<close> is the error thrown, \<open>Inr True\<close> the value returned.\<close>

definition validate :: "filesystem \<Rightarrow> VideoClip \<Rightarrow> validation_error + bool" where
  "validate fs c =
     (case fs (filePath c) of
        None \<Rightarrow> Inl (FileNotFound (filePath c))
      | Some bytes \<Rightarrow>
          if title c = [] \<or> trim (title c) = [] then Inl TitleRequired
          else let fileSizeMB = (of_nat bytes :: rat) / (1024 * 1024)
               in if fileSizeMB > 500 then Inl (FileTooLarge bytes) else Inr True)"

section \<open>Analytics\<close>

text \<open>
  \<^verbatim>\<open>this.data\<close> is an object whose \<^verbatim>\<open>totalUploads\<close> is a number and whose four other
  properties are references to objects of the store.
\<close>

record AnalyticsData =
  totalUploads :: nat
  successfulUploads :: addr
  failedUploads :: addr
  uploadHistory :: addr
  platformPerformance :: addr

text \<open>What an analytics object shows in a given store, every reference followed.\<close>

definition contents :: "world \<Rightarrow> AnalyticsData \<Rightarrow> AnalyticsValue" where
  "contents w d =
     \<lparr>v_totalUploads = totalUploads d,
      v_successfulUploads = counters w (successfulUploads d),
      v_failedUploads = counters w (failedUploads d),
      v_uploadHistory = histories w (uploadHistory d),
      v_platformPerformance = performances w (platformPerformance d)\<rparr>"

text \<open>\<^verbatim>\<open>saveToFile()\<close>: the file receives \<^verbatim>\<open>JSON.stringify(this.data)\<close>; the write is taken to succeed.\<close>

definition saveToFile :: "AnalyticsData \<Rightarrow> world \<Rightarrow> world" where
  "saveToFile d w = w\<lparr>analyticsFile := Some (contents w d)\<rparr>"

text \<open>
  \<^verbatim>\<open>new Analytics()\<close>: four fresh nested objects, empty, or as parsed from the file when
  there is one (\<^verbatim>\<open>{ ...this.data, ...JSON.parse(data) }\<close>).
\<close>

definition new_Analytics :: "world \<Rightarrow> AnalyticsData \<times> world" where
  "new_Analytics w =
     (let a = nextAddr w;
          v = (case analyticsFile w of
                 None \<Rightarrow> \<lparr>v_totalUploads = 0, v_successfulUploads = Map.empty,
                           v_failedUploads = Map.empty, v_uploadHistory = [],
                           v_platformPerformance = Map.empty\<rparr>
               | Some saved \<Rightarrow> saved)
      in (\<lparr>totalUploads = v_totalUploads v, successfulUploads = a, failedUploads = a + 1,
           uploadHistory = a + 2, platformPerformance = a + 3\<rparr>,
          w\<lparr>counters := (counters w)(a := v_successfulUploads v, a + 1 := v_failedUploads v),
            histories := (histories w)(a + 2 := v_uploadHistory v),
            performances := (performances w)(a + 3 := v_platformPerformance v),
            nextAddr := a + 4\<rparr>))"

text \<open>
  The tables are object literals, so \<^verbatim>\<open>table[key]\<close> also finds what \<^verbatim>\<open>Object.prototype\<close>
  defines: for one of these names that the table does not hold itself, the value read
  is a function (or the prototype), truthy and not a count.
\<close>

definition Object_prototype_names :: "string list" where
  "Object_prototype_names =
     [''constructor'', ''__defineGetter__'', ''__defineSetter__'', ''hasOwnProperty'',
      ''__lookupGetter__'', ''__lookupSetter__'', ''isPrototypeOf'', ''propertyIsEnumerable'',
      ''toString'', ''valueOf'', ''__proto__'', ''toLocaleString'']"

definition inherited :: "(string \<rightharpoonup> 'a) \<Rightarrow> string \<Rightarrow> bool" where
  "inherited table key = (table key = None \<and> key \<in> set Object_prototype_names)"

text \<open>\<^verbatim>\<open>(table[key] || 0) + 1\<close> on a count.\<close>

definition increment :: "(string \<rightharpoonup> nat) \<Rightarrow> string \<Rightarrow> (string \<rightharpoonup> nat)" where
  "increment table key = table(key \<mapsto> (case table key of None \<Rightarrow> 0 | Some n \<Rightarrow> n) + 1)"

text \<open>
  \<^verbatim>\<open>recordUpload(platform, success, error = null)\<close>. \<open>Inr\<close> is a normal return. For an
  inherited name the code goes another way. The tally becomes a string (the function's
  text followed by \<^verbatim>\<open>1\<close>); the tables of the model hold counts only and are left as
  they are. \<^verbatim>\<open>platformPerformance[platform]\<close> is truthy, so no entry is made and \<^verbatim>\<open>perf\<close>
  is the inherited value: the writes to it do not reach the table, and on a failure
  with a non-empty error \<^verbatim>\<open>perf.commonErrors[error]\<close> reads a property of \<^verbatim>\<open>undefined\<close>:
  the call throws a TypeError before the file is saved. \<open>Inl\<close> is that throw, with the
  message and the state at the throw.
\<close>

definition recordUpload ::
  "string \<Rightarrow> bool \<Rightarrow> string option \<Rightarrow> AnalyticsData \<Rightarrow> world
     \<Rightarrow> (string \<times> AnalyticsData \<times> world) + (AnalyticsData \<times> world)" where
  "recordUpload p ok err d w =
     (let d1 = d\<lparr>totalUploads := totalUploads d + 1\<rparr>;
          tally = (if ok then successfulUploads d else failedUploads d);
          w1 = (if inherited (counters w tally) p then w
                else w\<lparr>counters := (counters w)(tally := increment (counters w tally) p)\<rparr>);
          table = performances w1 (platformPerformance d)
      in if inherited table p
         then (case err of
                 None \<Rightarrow> Inr (d1, saveToFile d1 w1)
               | Some e \<Rightarrow>
                   if \<not> ok \<and> e \<noteq> []
                   then Inl (''Cannot read properties of undefined (reading '' @ [CHR 0x27] @ e
                               @ [CHR 0x27] @ '')'', d1, w1)
                   else Inr (d1, saveToFile d1 w1))
         else (let perf0 = (case table p of
                              None \<Rightarrow> \<lparr>successRate = 0, totalAttempts = 0, lastUpload = None,
                                        commonErrors = Map.empty\<rparr>
                            | Some q \<Rightarrow> q);
                   perf1 = perf0\<lparr>totalAttempts := totalAttempts perf0 + 1,
                                lastUpload := Some (clock w)\<rparr>;
                   perf2 = (if ok
                            then perf1\<lparr>successRate :=
                                   of_nat (case counters w1 (successfulUploads d) p of
                                             None \<Rightarrow> 0 | Some n \<Rightarrow> n)
                                     / of_nat (totalAttempts perf1)\<rparr>
                            else (case err of
                                    None \<Rightarrow> perf1
                                  | Some e \<Rightarrow>
                                      if e = [] then perf1
                                      else perf1\<lparr>commonErrors :=
                                             increment (commonErrors perf1) e\<rparr>));
                   w2 = w1\<lparr>performances :=
                             (performances w1)(platformPerformance d := table(p \<mapsto> perf2))\<rparr>
               in Inr (d1, saveToFile d1 w2)))"

text \<open>\<^verbatim>\<open>addUploadBatch(batchData)\<close>; the timestamp is the clock's.\<close>

definition addUploadBatch :: "BatchSummary \<Rightarrow> AnalyticsData \<Rightarrow> world \<Rightarrow> world" where
  "addUploadBatch batchData d w =
     saveToFile d
       (w\<lparr>histories := (histories w)(uploadHistory d :=
             histories w (uploadHistory d) @ [batchData\<lparr>timestamp := clock w\<rparr>])\<rparr>)"

text \<open>\<^verbatim>\<open>getStats()\<close> is \<^verbatim>\<open>{ ...this.data }\<close>: a new object with the same five property values.\<close>

definition getStats :: "AnalyticsData \<Rightarrow> AnalyticsData" where
  "getStats d =
     \<lparr>totalUploads = totalUploads d, successfulUploads = successfulUploads d,
      failedUploads = failedUploads d, uploadHistory = uploadHistory d,
      platformPerformance = platformPerformance d\<rparr>"

section \<open>The batch loop\<close>

text \<open>The properties of the global \<^verbatim>\<open>CONFIG\<close> object that the batch loop reads.\<close>

record CONFIG =
  PLATFORMS_TO_UPLOAD :: "string list"
  STAGGER_UPLOADS :: bool
  STAGGER_MINUTES :: int
  MAX_RETRIES :: nat
  RANDOM_DELAY :: bool

definition CONFIG_default :: CONFIG where
  "CONFIG_default =
     \<lparr>PLATFORMS_TO_UPLOAD = [''youtube'', ''instagram'', ''tiktok''], STAGGER_UPLOADS = True,
      STAGGER_MINUTES = 30, MAX_RETRIES = 3, RANDOM_DELAY = True\<rparr>"

text \<open>
  What the program does not decide: the files on disk, the upload operation behind each
  registry key, and the outcomes of \<^verbatim>\<open>Math.random()\<close>: for the \<open>k\<close>-th draw, the value of
  \<^verbatim>\<open>Math.floor(Math.random() * 60000)\<close> (reduced modulo 60000 where it is used) and of
  \<^verbatim>\<open>Math.random().toString(36).substr(2, 9)\<close>; and the time zone of the host, as the
  number of milliseconds that its local time is ahead of UTC.
\<close>

record environment =
  files :: filesystem
  upload_of :: "string \<Rightarrow> upload_op"
  random_ms :: "nat \<Rightarrow> nat"
  random_suffix :: "nat \<Rightarrow> string"
  localOffset :: int

text \<open>
  A \<^verbatim>\<open>SocialMediaUploader\<close>: its registry of five uploaders and its analytics object. (Its
  own \<^verbatim>\<open>scheduler\<close> property plays no part in a batch.)
\<close>

record SocialMediaUploader =
  uploaders :: "(string \<times> PlatformUploader) list"
  analytics :: AnalyticsData

definition new_SocialMediaUploader :: "world \<Rightarrow> SocialMediaUploader \<times> world" where
  "new_SocialMediaUploader w =
     (let (d, w') = new_Analytics w
      in (\<lparr>uploaders =
            [(''youtube'', new_PlatformUploader ''YouTube''),
             (''instagram'', new_PlatformUploader ''Instagram''),
             (''tiktok'', new_PlatformUploader ''TikTok''),
             (''linkedin'', new_PlatformUploader ''LinkedIn''),
             (''twitter'', new_PlatformUploader ''Twitter'')],
           analytics = d\<rparr>, w'))"

text \<open>
  \<^verbatim>\<open>this.uploaders[platform]\<close>: one of the five uploaders, a property inherited from
  \<^verbatim>\<open>Object.prototype\<close> (truthy, but with no \<^verbatim>\<open>uploadWithRetry\<close>), or \<^verbatim>\<open>undefined\<close>.
\<close>

datatype lookup = Registered PlatformUploader | Inherited | Missing

definition lookup_uploader :: "SocialMediaUploader \<Rightarrow> string \<Rightarrow> lookup" where
  "lookup_uploader self p =
     (case map_of (uploaders self) p of
        Some u \<Rightarrow> Registered u
      | None \<Rightarrow> if p \<in> set Object_prototype_names then Inherited else Missing)"

text \<open>\<^verbatim>\<open>obj[k] = v\<close> on an object or a \<^verbatim>\<open>Map\<close>: a known key keeps its place.\<close>

fun set_key :: "'k \<Rightarrow> 'v \<Rightarrow> ('k \<times> 'v) list \<Rightarrow> ('k \<times> 'v) list" where
  "set_key k v [] = [(k, v)]"
| "set_key k v (kv # kvs) = (if fst kv = k then (k, v) # kvs else kv # set_key k v kvs)"

text \<open>\<^verbatim>\<open>results[platform].push(x)\<close>\<close>

definition push_key :: "'k \<Rightarrow> 'v \<Rightarrow> ('k \<times> 'v list) list \<Rightarrow> ('k \<times> 'v list) list" where
  "push_key k x kvs = map (\<lambda>kv. if fst kv = k then (fst kv, snd kv @ [x]) else kv) kvs"

text \<open>
  A \<^verbatim>\<open>url\<close> or \<^verbatim>\<open>error\<close> of an \<^verbatim>\<open>UploadResult\<close> inside a template literal: an absent one
  is \<^verbatim>\<open>null\<close> (the constructor's default, also for an \<^verbatim>\<open>undefined\<close> argument).
\<close>

fun shown :: "string option \<Rightarrow> string" where
  "shown None = ''null''"
| "shown (Some s) = s"

text \<open>What the loops of \<^verbatim>\<open>uploadClips\<close> build up.\<close>

record batch =
  acc_results :: "(string \<times> string list) list"
  acc_failed :: "string list"
  acc_self :: SocialMediaUploader

definition random_delay :: "CONFIG \<Rightarrow> environment \<Rightarrow> world \<Rightarrow> world" where
  "random_delay cfg env w =
     (if RANDOM_DELAY cfg
      then sleep RandomDelay (Num (int (random_ms env (draws w) mod 60000)))
             (w\<lparr>draws := draws w + 1\<rparr>)
      else w)"

text \<open>
  An error that nothing catches makes \<^verbatim>\<open>uploadClips\<close> reject. The model then gives the
  error's message, the clips as they are by then, and the world; the state of the
  uploader object after a rejection is not followed.
\<close>

type_synonym 'a rejection = "string \<times> 'a \<times> world"

text \<open>
  The \<^verbatim>\<open>catch (error)\<close> block of the platform loop: it pushes the failure entry and calls
  \<^verbatim>\<open>recordUpload(platform, false, error.message)\<close>, whose own throw nothing catches.
\<close>

definition catch_block ::
  "string \<Rightarrow> VideoClip \<Rightarrow> string \<Rightarrow> batch \<times> world \<Rightarrow> VideoClip rejection + (batch \<times> world)" where
  "catch_block p clip msg s =
     (let b = (fst s)\<lparr>acc_failed := acc_failed (fst s) @ [title clip @ '' -> '' @ p @ '': '' @ msg]\<rparr>
      in case recordUpload p False (Some msg) (analytics (acc_self b)) (snd s) of
           Inl (e, d, w) \<Rightarrow> Inl (e, clip, w)
         | Inr (d, w) \<Rightarrow> Inr (b\<lparr>acc_self := (acc_self b)\<lparr>analytics := d\<rparr>\<rparr>, w))"

text \<open>
  The body of \<^verbatim>\<open>for (const platform of CONFIG.PLATFORMS_TO_UPLOAD)\<close>, for one clip. An
  inherited registry value has no \<^verbatim>\<open>uploadWithRetry\<close>: the call throws a TypeError inside
  the \<^verbatim>\<open>try\<close>, after the random delay. A throw of \<^verbatim>\<open>recordUpload\<close> inside the \<^verbatim>\<open>try\<close> goes to
  the catch block as well.
\<close>

definition upload_to_platform ::
  "CONFIG \<Rightarrow> environment \<Rightarrow> string \<Rightarrow> VideoClip \<times> batch \<times> world
     \<Rightarrow> VideoClip rejection + (VideoClip \<times> batch \<times> world)" where
  "upload_to_platform cfg env p s =
     (case s of (clip, b, w) \<Rightarrow>
        (case lookup_uploader (acc_self b) p of
           Missing \<Rightarrow> Inr s
         | Inherited \<Rightarrow>
             (case catch_block p clip ''uploader.uploadWithRetry is not a function''
                     (b, random_delay cfg env w) of
                Inl x \<Rightarrow> Inl x
              | Inr (b', w') \<Rightarrow> Inr (clip, b', w'))
         | Registered uploader \<Rightarrow>
             (let w1 = random_delay cfg env w;
                  (result, uploader', w2) =
                     uploadWithRetry (upload_of env p) clip (MAX_RETRIES cfg) uploader
                       (w1\<lparr>attempts := attempts w1 @ [(p, title clip)]\<rparr>);
                  self1 = (acc_self b)\<lparr>uploaders := set_key p uploader' (uploaders (acc_self b))\<rparr>
              in if success result
                 then (let clip1 = clip\<lparr>uploadUrls :=
                                          set_key p (shown (url result)) (uploadUrls clip)\<rparr>;
                           b1 = b\<lparr>acc_results := push_key p (shown (url result)) (acc_results b)\<rparr>
                       in case recordUpload p True None (analytics self1) w2 of
                            Inr (d, w3) \<Rightarrow>
                              Inr (clip1, b1\<lparr>acc_self := self1\<lparr>analytics := d\<rparr>\<rparr>,
                                   w3\<lparr>events := events w3
                                        @ [UploadSuccess p (title clip) (shown (url result))]\<rparr>)
                          | Inl (e, d, w3) \<Rightarrow>
                              (case catch_block p clip1 e
                                      (b1\<lparr>acc_self := self1\<lparr>analytics := d\<rparr>\<rparr>, w3) of
                                 Inl x \<Rightarrow> Inl x
                               | Inr (b', w') \<Rightarrow> Inr (clip1, b', w')))
                 else (let b1 = b\<lparr>acc_failed := acc_failed b
                                     @ [title clip @ '' -> '' @ p @ '': '' @ shown (error result)]\<rparr>
                       in case recordUpload p False (error result) (analytics self1) w2 of
                            Inr (d, w3) \<Rightarrow>
                              Inr (clip, b1\<lparr>acc_self := self1\<lparr>analytics := d\<rparr>\<rparr>,
                                   w3\<lparr>events := events w3
                                        @ [UploadFailed p (title clip) (error result)]\<rparr>)
                          | Inl (e, d, w3) \<Rightarrow>
                              (case catch_block p clip e
                                      (b1\<lparr>acc_self := self1\<lparr>analytics := d\<rparr>\<rparr>, w3) of
                                 Inl x \<Rightarrow> Inl x
                               | Inr (b', w') \<Rightarrow> Inr (clip, b', w'))))))"

text \<open>The platform loop: it ends at the first error that nothing catches.\<close>

fun upload_to_platforms ::
  "CONFIG \<Rightarrow> environment \<Rightarrow> string list \<Rightarrow> VideoClip \<times> batch \<times> world
     \<Rightarrow> VideoClip rejection + (VideoClip \<times> batch \<times> world)" where
  "upload_to_platforms cfg env [] s = Inr s"
| "upload_to_platforms cfg env (p # ps) s =
     (case upload_to_platform cfg env p s of
        Inl x \<Rightarrow> Inl x
      | Inr s' \<Rightarrow> upload_to_platforms cfg env ps s')"

text \<open>
  The \<^verbatim>\<open>for (let i = 0; i < clips.length; i++)\<close> loop: \<open>rest = []\<close> is
  \<^verbatim>\<open>i = clips.length - 1\<close>. The clips come back with their \<^verbatim>\<open>uploadUrls\<close> filled in.
\<close>

fun process_clips ::
  "CONFIG \<Rightarrow> environment \<Rightarrow> VideoClip list \<Rightarrow> batch \<times> world
     \<Rightarrow> VideoClip list rejection + (VideoClip list \<times> batch \<times> world)" where
  "process_clips cfg env [] s = Inr ([], s)"
| "process_clips cfg env (clip # rest) s =
     (case validate (files env) clip of
        Inl e \<Rightarrow>
          (case process_clips cfg env rest
                  ((fst s)\<lparr>acc_failed := acc_failed (fst s) @ [title clip @ '': '' @ message e]\<rparr>,
                   snd s) of
             Inl (msg, rest', w') \<Rightarrow> Inl (msg, clip # rest', w')
           | Inr (rest', s') \<Rightarrow> Inr (clip # rest', s'))
      | Inr ok \<Rightarrow>
          (case upload_to_platforms cfg env (PLATFORMS_TO_UPLOAD cfg) (clip, s) of
             Inl (msg, clip', w') \<Rightarrow> Inl (msg, clip' # rest, w')
           | Inr (clip', b1, w1) \<Rightarrow>
               (case process_clips cfg env rest
                       (b1, if STAGGER_UPLOADS cfg \<and> rest \<noteq> []
                            then sleep Stagger (Num (STAGGER_MINUTES cfg * 60 * 1000)) w1
                            else w1) of
                  Inl (msg, rest', w') \<Rightarrow> Inl (msg, clip' # rest', w')
                | Inr (rest', s') \<Rightarrow> Inr (clip' # rest', s'))))"

record BatchResult =
  status :: string
  results :: "(string \<times> string list) list"
  failed :: "string list"
  analytics_snapshot :: AnalyticsData

definition uploadClips ::
  "CONFIG \<Rightarrow> environment \<Rightarrow> VideoClip list \<Rightarrow> SocialMediaUploader \<Rightarrow> world
     \<Rightarrow> VideoClip list rejection
         + (BatchResult \<times> VideoClip list \<times> SocialMediaUploader \<times> world)" where
  "uploadClips cfg env clips self w =
     (case process_clips cfg env clips
             (\<lparr>acc_results = fold (\<lambda>p r. set_key p [] r) (PLATFORMS_TO_UPLOAD cfg) [],
               acc_failed = [], acc_self = self\<rparr>, w) of
        Inl x \<Rightarrow> Inl x
      | Inr (clips', b, w1) \<Rightarrow>
          (let w2 = addUploadBatch
                      \<lparr>timestamp = clock w1, clipsCount = length clips,
                       batchPlatforms = PLATFORMS_TO_UPLOAD cfg, batchResults = acc_results b,
                       batchFailed = acc_failed b\<rparr>
                      (analytics (acc_self b)) w1;
               w3 = w2\<lparr>events := events w2 @ [BatchComplete]\<rparr>
           in Inr (\<lparr>status = ''completed'', results = acc_results b, failed = acc_failed b,
                    analytics_snapshot = getStats (analytics (acc_self b))\<rparr>,
                   clips', acc_self b, w3)))"

section \<open>The scheduler\<close>

text \<open>
  A job id is \<^verbatim>\<open>job_${Date.now()}_${suffix}\<close>: the clock reading and the random suffix.
  A \<^verbatim>\<open>Date\<close> is its time value in milliseconds, \<open>None\<close> for an invalid date.
\<close>

type_synonym job_id = "int \<times> string"

datatype job_status = Scheduled | Executing | Completed | Failed

record job =
  jobId :: job_id
  jobClip :: VideoClip
  jobScheduleTime :: "int option"
  jobStatus :: job_status
  jobCreatedAt :: int
  jobResult :: "BatchResult option"
  jobError :: "string option"

text \<open>
  The \<^verbatim>\<open>scheduledJobs\<close> map in insertion order, and the removals that
  \<^verbatim>\<open>checkScheduledJobs\<close> has handed to \<^verbatim>\<open>setTimeout\<close> and that have not run yet, each with
  the time it is due.
\<close>

record UploadScheduler =
  scheduledJobs :: "(job_id \<times> job) list"
  timers :: "(int \<times> job_id) list"

definition new_UploadScheduler :: UploadScheduler where
  "new_UploadScheduler = \<lparr>scheduledJobs = [], timers = []\<rparr>"

definition scheduleUpload ::
  "environment \<Rightarrow> VideoClip \<Rightarrow> int option \<Rightarrow> UploadScheduler \<Rightarrow> world
     \<Rightarrow> job_id \<times> UploadScheduler \<times> world" where
  "scheduleUpload env clip time sch w =
     (let jid = (clock w, random_suffix env (draws w));
          j = \<lparr>jobId = jid, jobClip = clip, jobScheduleTime = time, jobStatus = Scheduled,
               jobCreatedAt = clock w, jobResult = None, jobError = None\<rparr>
      in (jid, sch\<lparr>scheduledJobs := set_key jid j (scheduledJobs sch)\<rparr>,
          w\<lparr>draws := draws w + 1\<rparr>))"

text \<open>\<^verbatim>\<open>s.split(c)\<close>\<close>

fun split_on :: "char \<Rightarrow> string \<Rightarrow> string list" where
  "split_on c [] = [[]]"
| "split_on c (x # xs) =
     (if x = c then [] # split_on c xs
      else (case split_on c xs of [] \<Rightarrow> [[x]] | y # ys \<Rightarrow> (x # y) # ys))"

text \<open>
  \<^verbatim>\<open>parseInt(s)\<close> with no radix: leading white space, a sign, \<^verbatim>\<open>0x\<close> for base 16, then
  the longest run of digits; \<open>None\<close> is \<^verbatim>\<open>NaN\<close>. An absent array element reads as
  \<^verbatim>\<open>undefined\<close>, which parses to \<^verbatim>\<open>NaN\<close>.
\<close>

definition digit_value :: "char \<Rightarrow> nat" where
  "digit_value c =
     (let n = of_char c :: nat
      in if 48 \<le> n \<and> n \<le> 57 then n - 48
         else if 97 \<le> n \<and> n \<le> 122 then n - 87
         else if 65 \<le> n \<and> n \<le> 90 then n - 55
         else 36)"

definition parseInt :: "string \<Rightarrow> int option" where
  "parseInt s =
     (let s1 = dropWhile js_whitespace s;
          negative = (s1 \<noteq> [] \<and> hd s1 = CHR ''-'');
          s2 = (if s1 \<noteq> [] \<and> (hd s1 = CHR ''-'' \<or> hd s1 = CHR ''+'') then tl s1 else s1);
          hex = (take 2 s2 = ''0x'' \<or> take 2 s2 = ''0X'');
          radix = (if hex then 16 else 10);
          s3 = (if hex then drop 2 s2 else s2);
          ds = takeWhile (\<lambda>c. digit_value c < radix) s3;
          n = foldl (\<lambda>a c. a * radix + digit_value c) 0 ds
      in if ds = [] then None else Some (if negative then - int n else int n))"

fun element :: "string list \<Rightarrow> nat \<Rightarrow> string option" where
  "element [] i = None"
| "element (x # xs) 0 = Some x"
| "element (x # xs) (Suc i) = element xs i"

definition parseInt_element :: "string list \<Rightarrow> nat \<Rightarrow> int option" where
  "parseInt_element parts i = (case element parts i of None \<Rightarrow> None | Some s \<Rightarrow> parseInt s)"

text \<open>
  The clock counts milliseconds of UTC, as \<^verbatim>\<open>Date.now()\<close> does, and \<^verbatim>\<open>Date.setHours\<close> and
  \<^verbatim>\<open>Date.setDate\<close> work in the local time of the host (\<^verbatim>\<open>CONFIG.TIMEZONE\<close> is never read).
  The host's zone is taken to keep one offset from UTC over the days concerned: a change
  of offset (daylight saving) between the call and the target is outside the model.
  \<^verbatim>\<open>setHours(h, m, 0, 0)\<close> keeps the local day and sets the time within it;
  \<^verbatim>\<open>setDate(getDate() + 1)\<close> moves one local day on.
\<close>

definition msPerDay :: int where
  "msPerDay = 86400000"

definition localTime :: "environment \<Rightarrow> int \<Rightarrow> int" where
  "localTime env t = t + localOffset env"

definition setHours :: "environment \<Rightarrow> int option \<Rightarrow> int option \<Rightarrow> int \<Rightarrow> int option" where
  "setHours env hours minutes t =
     (case hours of
        None \<Rightarrow> None
      | Some h \<Rightarrow>
          (case minutes of
             None \<Rightarrow> None
           | Some m \<Rightarrow>
               Some (localTime env t div msPerDay * msPerDay + h * 3600000 + m * 60000
                       - localOffset env)))"

text \<open>
  The schedule time that one iteration of \<^verbatim>\<open>schedulePlatformUploads\<close> computes from the
  time-of-day string; \<^verbatim>\<open>scheduleTime < new Date()\<close> is false on an invalid date.
\<close>

definition platform_schedule_time :: "environment \<Rightarrow> int \<Rightarrow> string \<Rightarrow> int option" where
  "platform_schedule_time env now time =
     (let parts = split_on CHR '':'' time
      in case setHours env (parseInt_element parts 0) (parseInt_element parts 1) now of
           None \<Rightarrow> None
         | Some t \<Rightarrow> if t < now then Some (t + msPerDay) else Some t)"

text \<open>\<^verbatim>\<open>new VideoClip({ ...clip, platforms: [platform] })\<close>\<close>

definition platform_clip :: "VideoClip \<Rightarrow> string \<Rightarrow> world \<Rightarrow> VideoClip" where
  "platform_clip clip p w = clip\<lparr>platforms := [p], uploadUrls := [], createdAt := clock w\<rparr>"

fun schedulePlatformUploads ::
  "environment \<Rightarrow> VideoClip \<Rightarrow> (string \<times> string) list \<Rightarrow> UploadScheduler \<Rightarrow> world
     \<Rightarrow> job_id list \<times> UploadScheduler \<times> world" where
  "schedulePlatformUploads env clip [] sch w = ([], sch, w)"
| "schedulePlatformUploads env clip (entry # entries) sch w =
     (let (jid, sch1, w1) =
             scheduleUpload env (platform_clip clip (fst entry) w)
               (platform_schedule_time env (clock w) (snd entry)) sch w;
          (jobIds, sch2, w2) = schedulePlatformUploads env clip entries sch1 w1
      in (jid # jobIds, sch2, w2))"

text \<open>
  One due job. The tick first writes \<^verbatim>\<open>executing\<close> into the job, which is the object the
  map holds, and then awaits the batch.
\<close>

definition mark_executing :: "job_id \<Rightarrow> UploadScheduler \<Rightarrow> UploadScheduler" where
  "mark_executing k sch =
     (case map_of (scheduledJobs sch) k of
        None \<Rightarrow> sch
      | Some j \<Rightarrow> sch\<lparr>scheduledJobs := set_key k (j\<lparr>jobStatus := Executing\<rparr>) (scheduledJobs sch)\<rparr>)"

text \<open>
  The \<^verbatim>\<open>try\<close> and \<^verbatim>\<open>catch\<close> of the tick, on the job as the map holds it. The \<^verbatim>\<open>try\<close> block
  runs a batch of the job's one clip on a new \<^verbatim>\<open>SocialMediaUploader\<close>, marks the job
  completed, stores the result and emits \<^verbatim>\<open>jobCompleted\<close>. A rejected batch, or a listener
  of \<^verbatim>\<open>jobCompleted\<close> that throws (\<open>listener\<close> answers with the error's message), leads to
  the \<^verbatim>\<open>catch\<close> block: the job is marked failed and the message stored. A listener of
  \<^verbatim>\<open>jobFailed\<close> is taken to return.
\<close>

definition run_job ::
  "CONFIG \<Rightarrow> environment \<Rightarrow> (job \<Rightarrow> string option) \<Rightarrow> job \<Rightarrow> world \<Rightarrow> job \<times> world" where
  "run_job cfg env listener j w =
     (case uploadClips cfg env [jobClip j] (fst (new_SocialMediaUploader w))
             (snd (new_SocialMediaUploader w)) of
        Inl (msg, clips', w2) \<Rightarrow>
          (j\<lparr>jobClip := (case clips' of [] \<Rightarrow> jobClip j | c # cs \<Rightarrow> c),
             jobStatus := Failed, jobError := Some msg\<rparr>, w2)
      | Inr (result, clips', uploader', w2) \<Rightarrow>
          (let j1 = j\<lparr>jobClip := (case clips' of [] \<Rightarrow> jobClip j | c # cs \<Rightarrow> c),
                      jobStatus := Completed, jobResult := Some result\<rparr>
           in case listener j1 of
                None \<Rightarrow> (j1, w2)
              | Some msg \<Rightarrow> (j1\<lparr>jobStatus := Failed, jobError := Some msg\<rparr>, w2)))"

text \<open>
  After the \<^verbatim>\<open>try\<close> and \<^verbatim>\<open>catch\<close>, the removal of the job is handed to \<^verbatim>\<open>setTimeout\<close>, due
  24 hours later.
\<close>

definition resolve_job ::
  "CONFIG \<Rightarrow> environment \<Rightarrow> (job \<Rightarrow> string option) \<Rightarrow> job_id
     \<Rightarrow> UploadScheduler \<times> world \<Rightarrow> UploadScheduler \<times> world" where
  "resolve_job cfg env listener k s =
     (case map_of (scheduledJobs (fst s)) k of
        None \<Rightarrow> s
      | Some j \<Rightarrow>
          (let (j', w1) = run_job cfg env listener j (snd s)
           in ((fst s)\<lparr>scheduledJobs := set_key k j' (scheduledJobs (fst s)),
                       timers := timers (fst s) @ [(clock w1 + 24 * 60 * 60 * 1000, k)]\<rparr>,
               w1)))"

text \<open>\<^verbatim>\<open>job.scheduleTime <= now\<close>\<close>

fun due :: "int option \<Rightarrow> int \<Rightarrow> bool" where
  "due None now = False"
| "due (Some t) now = (t \<le> now)"

text \<open>
  The body of the loop of \<^verbatim>\<open>checkScheduledJobs\<close> for one entry of the map, \<open>now\<close> being
  the clock reading taken when the tick began.
\<close>

definition visit ::
  "CONFIG \<Rightarrow> environment \<Rightarrow> (job \<Rightarrow> string option) \<Rightarrow> int \<Rightarrow> job_id
     \<Rightarrow> UploadScheduler \<times> world \<Rightarrow> UploadScheduler \<times> world" where
  "visit cfg env listener now k s =
     (case map_of (scheduledJobs (fst s)) k of
        None \<Rightarrow> s
      | Some j \<Rightarrow>
          if jobStatus j = Scheduled \<and> due (jobScheduleTime j) now
          then resolve_job cfg env listener k (mark_executing k (fst s), snd s)
          else s)"

definition checkScheduledJobs ::
  "CONFIG \<Rightarrow> environment \<Rightarrow> (job \<Rightarrow> string option) \<Rightarrow> UploadScheduler \<Rightarrow> world
     \<Rightarrow> UploadScheduler \<times> world" where
  "checkScheduledJobs cfg env listener sch w =
     fold (visit cfg env listener (clock w)) (map fst (scheduledJobs sch)) (sch, w)"


section \<open>Observations and example inputs\<close>

text \<open>The backoff sleeps among the sleeps of a world.\<close>

definition backoffs :: "world \<Rightarrow> (sleep_kind \<times> js_number) list" where
  "backoffs w = filter (\<lambda>s. fst s = Backoff) (sleeps w)"

text \<open>A clip, and three upload operations: one that always throws, one that throws on the first call only, one that returns \<^verbatim>\<open>undefined\<close> or the empty string.\<close>

definition example_clip :: VideoClip where
  "example_clip =
     \<lparr>filePath = ''clips/demo.mp4'', title = ''Demo'', description = ''A clip'',
      tags = [''shorts''], privacy = ''public'', thumbnailPath = None, scheduleTime = None,
      platforms = [''tiktok''], uploadUrls = [], createdAt = 0\<rparr>"

definition always_fails :: upload_op where
  "always_fails c k = (Throws ''quota_exceeded'', 1200)"

definition fails_once :: upload_op where
  "fails_once c k = (if k = 0 then (Throws ''timeout'', 1200)
                     else (Returns (Some ''https://youtube.com/watch?v=yt_1''), 2000))"

definition returns_nothing :: upload_op where
  "returns_nothing c k = (Returns (if even k then None else Some []), 1500)"

text \<open>Timestamps one second apart, from 1000: the first \<open>n\<close> acquisitions of a new limiter.\<close>

definition burst :: "nat \<Rightarrow> int list" where
  "burst n = map (\<lambda>i. 1000 * (int i + 1)) [0..<n]"

text \<open>A disk that holds the example clip's file (1 MB) and nothing else, and an environment on it.\<close>

definition example_files :: filesystem where
  "example_files path = (if path = ''clips/demo.mp4'' then Some 1048576 else None)"

definition example_env :: environment where
  "example_env = \<lparr>files = example_files, upload_of = (\<lambda>p. always_fails),
      random_ms = (\<lambda>k. 0),
      random_suffix = (\<lambda>k. if k = 0 then ''k3x9q2m1z'' else ''p7d4w8n5c''),
      localOffset = 0\<rparr>"

definition example_batch :: batch where
  "example_batch =
     \<lparr>acc_results = [], acc_failed = [], acc_self = fst (new_SocialMediaUploader world0)\<rparr>"

text \<open>
  The keys that name one of the five uploaders, and the calls of \<^verbatim>\<open>uploadWithRetry\<close> that a
  batch owes: for each clip that passes validation, in order, one for each configured
  platform that names an uploader, in configured order.
\<close>

definition registered :: "SocialMediaUploader \<Rightarrow> string \<Rightarrow> bool" where
  "registered self p = (map_of (uploaders self) p \<noteq> None)"

definition expected_attempts ::
  "CONFIG \<Rightarrow> environment \<Rightarrow> SocialMediaUploader \<Rightarrow> VideoClip list \<Rightarrow> (string \<times> string) list" where
  "expected_attempts cfg env self clips =
     concat (map (\<lambda>c. map (\<lambda>p. (p, title c)) (filter (registered self) (PLATFORMS_TO_UPLOAD cfg)))
               (filter (\<lambda>c. validate (files env) c = Inr True) clips))"

text \<open>
  The jobs that \<^verbatim>\<open>schedulePlatformUploads\<close> creates, one for each entry of the schedule in
  order, each under its id; and a schedule of two entries.
\<close>

fun planned :: "environment \<Rightarrow> VideoClip \<Rightarrow> (string \<times> string) list \<Rightarrow> world \<Rightarrow> (job_id \<times> job) list" where
  "planned env clip [] w = []"
| "planned env clip (entry # entries) w =
     ((clock w, random_suffix env (draws w)),
      \<lparr>jobId = (clock w, random_suffix env (draws w)),
       jobClip = platform_clip clip (fst entry) w,
       jobScheduleTime = platform_schedule_time env (clock w) (snd entry),
       jobStatus = Scheduled, jobCreatedAt = clock w, jobResult = None, jobError = None\<rparr>)
     # planned env clip entries (w\<lparr>draws := draws w + 1\<rparr>)"

definition example_schedule :: "(string \<times> string) list" where
  "example_schedule = [(''youtube'', ''16:00''), (''tiktok'', ''18:00'')]"




text \<open>A configuration whose first platform name is one that \<^verbatim>\<open>Object.prototype\<close> defines.\<close>

definition inherited_config :: CONFIG where
  "inherited_config = CONFIG_default\<lparr>PLATFORMS_TO_UPLOAD := [''constructor'', ''tiktok'']\<rparr>"

text \<open>The example environment on a host five and a half hours ahead of UTC.\<close>

definition example_env_east :: environment where
  "example_env_east = example_env\<lparr>localOffset := 19800000\<rparr>"

section \<open>RateLimiter: what the window holds\<close>

lemma Math_min_Num: "xs \<noteq> [] \<Longrightarrow> Math_min xs = Num (Min (set xs))"
proof (induction xs)
  case Nil
  then show ?case by simp
next
  case (Cons x xs)
  show ?case
  proof (cases "xs = []")
    case True
    then show ?thesis by simp
  next
    case False
    with Cons show ?thesis by (simp add: min_def)
  qed
qed

lemma burst_bounds: "t \<in> set (burst n) \<Longrightarrow> 1000 \<le> t \<and> t \<le> 1000 * int n"
  by (auto simp: burst_def)

lemma burst_kept:
  "n \<le> 51 \<Longrightarrow> filter (\<lambda>time. 1000 * (int n + 1) - time < 3600000) (burst n) = burst n"
  by (rule filter_True) (auto dest: burst_bounds)

lemma Min_burst: "0 < n \<Longrightarrow> Min (set (burst n)) = 1000"
  by (rule Min_eqI) (auto simp: burst_def image_iff intro!: bexI [of _ 0])

text \<open>Fifty acquisitions one second apart all pass without a wait.\<close>

lemma acquire_burst:
  "n \<le> 50 \<Longrightarrow> (acquire_after 1000 ^^ n) (new_RateLimiter, world0)
      = (new_RateLimiter\<lparr>requests := burst n\<rparr>, world0\<lparr>clock := 1000 * int n\<rparr>)"
proof (induction n)
  case 0
  then show ?case by (simp add: burst_def new_RateLimiter_def world0_def)
next
  case (Suc n)
  then have n: "n < 50" by simp
  have k: "filter (\<lambda>time. 1000 + int n * 1000 - time < 3600000) (burst n) = burst n"
    using burst_kept [of n] n by (simp add: algebra_simps)
  have l: "length (burst n) = n" by (simp add: burst_def)
  show ?case
    using Suc n
    by (simp add: acquire_after_def checkLimit_def advance_def new_RateLimiter_def world0_def
        Let_def k l) (simp add: burst_def algebra_simps)
qed

text \<open>A call that finds the window full.\<close>

lemma checkLimit_full:
  "filter (\<lambda>time. clock w - time < windowMs rl) (requests rl) = requests rl \<Longrightarrow>
   maxRequests rl \<le> int (length (requests rl)) \<Longrightarrow> Math_min (requests rl) = Num oldest \<Longrightarrow>
   checkLimit rl w
     = (rl\<lparr>requests := requests rl @ [clock w]\<rparr>,
        sleep RateLimitWait (Num (windowMs rl - (clock w - oldest))) w)"
  by (simp add: checkLimit_def Let_def)

text \<open>
  C3. The claim: however \<^verbatim>\<open>checkLimit()\<close> is called, no more than \<^verbatim>\<open>maxRequests\<close> recorded
  acquisitions ever have timestamps within one window, and on a full window the caller
  sleeps for exactly the window minus the age of the oldest request before the new
  timestamp is recorded. On the code: a new limiter (50 per hour) is asked once a second.
  The 51st call finds the window full and sleeps 3550000 ms, which is 3600000 minus the
  age 50000 of the oldest request, as claimed; but it then records the clock reading
  taken before the sleep, on top of the fifty entries it kept. The limiter now holds 51
  timestamps, every one of them less than an hour before the reading 51000.
\<close>

theorem checkLimit_records_51_within_one_window:
  "(case (acquire_after 1000 ^^ 51) (new_RateLimiter, world0) of (rl, w) \<Rightarrow>
      maxRequests rl = 50 \<and> windowMs rl = 3600000 \<and>
      length (filter (\<lambda>t. 0 \<le> 51000 - t \<and> 51000 - t < windowMs rl) (requests rl)) = 51 \<and>
      sleeps w = [(RateLimitWait, Num 3550000)] \<and> clock w = 3601000)"
proof -
  let ?rl = "new_RateLimiter\<lparr>requests := burst 50\<rparr>"
  let ?w = "world0\<lparr>clock := 51000\<rparr>"
  have s: "(51::nat) = Suc 50" by simp
  have k: "filter (\<lambda>time. clock ?w - time < windowMs ?rl) (requests ?rl) = requests ?rl"
    by (rule filter_True) (auto dest: burst_bounds simp: new_RateLimiter_def)
  have l: "maxRequests ?rl \<le> int (length (requests ?rl))"
    by (simp add: burst_def new_RateLimiter_def)
  have m: "Math_min (requests ?rl) = Num 1000"
    using Math_min_Num [of "burst 50"] Min_burst [of 50] by (simp add: burst_def)
  have st: "(acquire_after 1000 ^^ 51) (new_RateLimiter, world0)
              = (?rl\<lparr>requests := burst 50 @ [51000]\<rparr>, sleep RateLimitWait (Num 3550000) ?w)"
    unfolding s funpow.simps o_apply acquire_burst [of 50, simplified]
    using checkLimit_full [OF k l m]
    by (simp add: acquire_after_def advance_def new_RateLimiter_def world0_def)
  have f: "filter (\<lambda>t. 0 \<le> 51000 - t \<and> 51000 - t < (3600000::int)) (burst 50 @ [51000])
             = burst 50 @ [51000]"
    by (rule filter_True) (auto dest: burst_bounds)
  have len: "length (burst 50 @ [51000]) = 51" by (simp add: burst_def)
  show ?thesis
    unfolding st using f len
    by (simp add: new_RateLimiter_def sleep_def world0_def del: filter_append)
qed

section \<open>The retry driver: attempts and outcomes\<close>

declare retry_loop.simps [simp del]

lemma checkLimit_invocations [simp]: "invocations (snd (checkLimit rl w)) = invocations w"
  by (simp add: checkLimit_def sleep_def Let_def)

lemma checkLimit_backoffs [simp]: "backoffs (snd (checkLimit rl w)) = backoffs w"
  by (simp add: checkLimit_def sleep_def Let_def backoffs_def)

lemma retry_loop_done:
  "maxRetries < attempt \<Longrightarrow>
   retry_loop op clip maxRetries attempt lastError up w
     = (new_UploadResult (platformName up) False None lastError w, up, w)"
  by (subst retry_loop.simps) simp

lemma retry_loop_throws:
  "attempt \<le> maxRetries \<Longrightarrow> op clip (length (invocations w)) = (Throws m, took) \<Longrightarrow>
   retry_loop op clip maxRetries attempt lastError up w
     = (let w1 = snd (checkLimit (rateLimiter up) w);
            w2 = w1\<lparr>invocations := invocations w @ [(platformName up, title clip)],
                    clock := clock w1 + int took\<rparr>
        in retry_loop op clip maxRetries (attempt + 1) (Some m)
             (up\<lparr>rateLimiter := fst (checkLimit (rateLimiter up) w)\<rparr>)
             (if attempt < maxRetries then sleep Backoff (Num (2 ^ attempt * 1000)) w2 else w2))"
  by (subst retry_loop.simps) (simp add: split_def Let_def)

lemma retry_loop_returns:
  "attempt \<le> maxRetries \<Longrightarrow> op clip (length (invocations w)) = (Returns r, took) \<Longrightarrow>
   retry_loop op clip maxRetries attempt lastError up w
     = (let w1 = snd (checkLimit (rateLimiter up) w);
            up1 = up\<lparr>rateLimiter := fst (checkLimit (rateLimiter up) w)\<rparr>;
            w2 = w1\<lparr>invocations := invocations w @ [(platformName up, title clip)],
                    clock := clock w1 + int took\<rparr>
        in if truthy r then (new_UploadResult (platformName up) True r None w2, up1, w2)
           else retry_loop op clip maxRetries (attempt + 1) lastError up1 w2)"
  by (subst retry_loop.simps) (simp add: split_def Let_def)

lemma retry_loop_falsy:
  assumes "\<forall>k. \<exists>r took. op clip k = (Returns r, took) \<and> \<not> truthy r"
  shows "Suc maxRetries - attempt = n \<Longrightarrow>
     (case retry_loop op clip maxRetries attempt lastError up w of (res, up', w') \<Rightarrow>
        \<not> success res \<and> url res = None \<and> error res = lastError \<and>
        invocations w' = invocations w @ replicate n (platformName up, title clip) \<and>
        backoffs w' = backoffs w)"
proof (induction n arbitrary: attempt up w)
  case 0
  then have "maxRetries < attempt" by simp
  then show ?case by (simp add: retry_loop_done new_UploadResult_def)
next
  case (Suc n)
  then have le: "attempt \<le> maxRetries" and n: "Suc maxRetries - (attempt + 1) = n" by simp_all
  obtain r took where r: "op clip (length (invocations w)) = (Returns r, took)" "\<not> truthy r"
    using assms by blast
  let ?w1 = "snd (checkLimit (rateLimiter up) w)"
  let ?w2 = "?w1\<lparr>invocations := invocations w @ [(platformName up, title clip)],
                    clock := clock ?w1 + int took\<rparr>"
  let ?up1 = "up\<lparr>rateLimiter := fst (checkLimit (rateLimiter up) w)\<rparr>"
  have step: "retry_loop op clip maxRetries attempt lastError up w
                = retry_loop op clip maxRetries (attempt + 1) lastError ?up1 ?w2"
    using retry_loop_returns [where op = op and clip = clip and w = w and r = r and took = took
            and attempt = attempt and maxRetries = maxRetries and lastError = lastError and up = up]
          le r
    by (simp add: Let_def)
  have b: "backoffs ?w2 = backoffs w"
    using checkLimit_backoffs [of "rateLimiter up" w] by (simp add: backoffs_def)
  show ?case
    using Suc.IH [OF n, where up = ?up1 and w = ?w2] b
    by (simp add: step split_def replicate_append_same)
qed

text \<open>
  C2. With \<^verbatim>\<open>maxRetries = 3\<close>: an operation that throws on every call is called exactly
  three times and the result is a failure carrying the message of the last error; an
  operation that throws on the first call and returns a non-empty string on the second is
  called exactly twice and the result is a success whose \<^verbatim>\<open>url\<close> is that string.
\<close>

theorem uploadWithRetry_three_attempts:
  "((\<forall>k. \<exists>m took. op clip k = (Throws m, took)) \<longrightarrow>
      (case uploadWithRetry op clip 3 up w of (res, up', w') \<Rightarrow>
         invocations w' = invocations w @ replicate 3 (platformName up, title clip) \<and>
         \<not> success res \<and> url res = None \<and>
         (\<exists>m took. op clip (length (invocations w) + 2) = (Throws m, took) \<and> error res = Some m))) \<and>
   ((\<exists>m took. op clip (length (invocations w)) = (Throws m, took)) \<and>
    op clip (length (invocations w) + 1) = (Returns (Some r), took') \<and> r \<noteq> [] \<longrightarrow>
      (case uploadWithRetry op clip 3 up w of (res, up', w') \<Rightarrow>
         invocations w' = invocations w @ replicate 2 (platformName up, title clip) \<and>
         success res \<and> url res = Some r \<and> error res = None))"
proof (intro conjI impI)
  assume a: "\<forall>k. \<exists>m took. op clip k = (Throws m, took)"
  let ?k = "length (invocations w)"
  obtain m0 e0 where a0: "op clip ?k = (Throws m0, e0)" using a by blast
  obtain m1 e1 where a1: "op clip (Suc ?k) = (Throws m1, e1)" using a by blast
  obtain m2 e2 where a2: "op clip (Suc (Suc ?k)) = (Throws m2, e2)" using a by blast
  show "case uploadWithRetry op clip 3 up w of (res, up', w') \<Rightarrow>
         invocations w' = invocations w @ replicate 3 (platformName up, title clip) \<and>
         \<not> success res \<and> url res = None \<and>
         (\<exists>m took. op clip (length (invocations w) + 2) = (Throws m, took) \<and> error res = Some m)"
    using a0 a1 a2
    by (simp add: uploadWithRetry_def retry_loop_throws retry_loop_done sleep_def
        new_UploadResult_def Let_def numeral_3_eq_3)
next
  assume b: "(\<exists>m took. op clip (length (invocations w)) = (Throws m, took)) \<and>
    op clip (length (invocations w) + 1) = (Returns (Some r), took') \<and> r \<noteq> []"
  then obtain m0 e0 where a0: "op clip (length (invocations w)) = (Throws m0, e0)" by blast
  from b have a1: "op clip (Suc (length (invocations w))) = (Returns (Some r), took')" by simp
  show "case uploadWithRetry op clip 3 up w of (res, up', w') \<Rightarrow>
         invocations w' = invocations w @ replicate 2 (platformName up, title clip) \<and>
         success res \<and> url res = Some r \<and> error res = None"
    using a0 a1 b
    by (simp add: uploadWithRetry_def retry_loop_throws retry_loop_returns sleep_def
        new_UploadResult_def Let_def numeral_2_eq_2)
qed

theorem uploadWithRetry_three_attempts_witness:
  "(\<forall>k. \<exists>m took. always_fails example_clip k = (Throws m, took)) \<and>
   (case uploadWithRetry always_fails example_clip 3 (new_PlatformUploader ''YouTube'') world0 of
      (res, up', w') \<Rightarrow>
        invocations w' = [(''YouTube'', ''Demo''), (''YouTube'', ''Demo''), (''YouTube'', ''Demo'')] \<and>
        \<not> success res \<and> error res = Some ''quota_exceeded'') \<and>
   (\<exists>m took. fails_once example_clip (length (invocations world0)) = (Throws m, took)) \<and>
   fails_once example_clip (length (invocations world0) + 1)
     = (Returns (Some ''https://youtube.com/watch?v=yt_1''), 2000) \<and>
   (case uploadWithRetry fails_once example_clip 3 (new_PlatformUploader ''YouTube'') world0 of
      (res, up', w') \<Rightarrow>
        invocations w' = [(''YouTube'', ''Demo''), (''YouTube'', ''Demo'')] \<and>
        success res \<and> url res = Some ''https://youtube.com/watch?v=yt_1'')"
  using uploadWithRetry_three_attempts
          [where op = always_fails and clip = example_clip and w = world0
             and up = "new_PlatformUploader ''YouTube''"]
        uploadWithRetry_three_attempts
          [where op = fails_once and clip = example_clip and w = world0
             and r = "''https://youtube.com/watch?v=yt_1''" and took' = 2000
             and up = "new_PlatformUploader ''YouTube''"]
  by (simp add: always_fails_def fails_once_def world0_def example_clip_def
      new_PlatformUploader_def split_def numeral_3_eq_3 numeral_2_eq_2)

text \<open>
  C10. An attempt whose upload returns a falsy value without throwing goes on to the next
  attempt from the world the call left, with no backoff sleep; and when every attempt
  ends so, all \<^verbatim>\<open>maxRetries\<close> calls are made, no backoff sleep is added, and the result
  is a failure with no error description.
\<close>

theorem uploadWithRetry_falsy_result:
  "(attempt \<le> maxRetries \<and> op clip (length (invocations w)) = (Returns r, took) \<and> \<not> truthy r \<longrightarrow>
      retry_loop op clip maxRetries attempt lastError up w
        = retry_loop op clip maxRetries (attempt + 1) lastError
            (up\<lparr>rateLimiter := fst (checkLimit (rateLimiter up) w)\<rparr>)
            ((snd (checkLimit (rateLimiter up) w))
               \<lparr>invocations := invocations w @ [(platformName up, title clip)],
                clock := clock (snd (checkLimit (rateLimiter up) w)) + int took\<rparr>)) \<and>
   ((\<forall>k. \<exists>r took. op clip k = (Returns r, took) \<and> \<not> truthy r) \<longrightarrow>
      (case uploadWithRetry op clip maxRetries up w of (res, up', w') \<Rightarrow>
         \<not> success res \<and> url res = None \<and> error res = None \<and>
         invocations w' = invocations w @ replicate maxRetries (platformName up, title clip) \<and>
         backoffs w' = backoffs w))"
proof (intro conjI impI)
  assume "attempt \<le> maxRetries \<and> op clip (length (invocations w)) = (Returns r, took) \<and> \<not> truthy r"
  then show "retry_loop op clip maxRetries attempt lastError up w
        = retry_loop op clip maxRetries (attempt + 1) lastError
            (up\<lparr>rateLimiter := fst (checkLimit (rateLimiter up) w)\<rparr>)
            ((snd (checkLimit (rateLimiter up) w))
               \<lparr>invocations := invocations w @ [(platformName up, title clip)],
                clock := clock (snd (checkLimit (rateLimiter up) w)) + int took\<rparr>)"
    using retry_loop_returns [where op = op and clip = clip and w = w and r = r and took = took
            and attempt = attempt and maxRetries = maxRetries and lastError = lastError and up = up]
    by (simp add: Let_def)
next
  assume a: "\<forall>k. \<exists>r took. op clip k = (Returns r, took) \<and> \<not> truthy r"
  show "case uploadWithRetry op clip maxRetries up w of (res, up', w') \<Rightarrow>
         \<not> success res \<and> url res = None \<and> error res = None \<and>
         invocations w' = invocations w @ replicate maxRetries (platformName up, title clip) \<and>
         backoffs w' = backoffs w"
    unfolding uploadWithRetry_def
    using a retry_loop_falsy [where op = op and clip = clip and maxRetries = maxRetries
            and attempt = 1 and n = maxRetries and lastError = None and up = up and w = w]
    by simp
qed

theorem uploadWithRetry_falsy_result_witness:
  "(1::nat) \<le> 3 \<and> returns_nothing example_clip (length (invocations world0)) = (Returns None, 1500) \<and>
   \<not> truthy None \<and>
   retry_loop returns_nothing example_clip 3 1 None (new_PlatformUploader ''TikTok'') world0
     = retry_loop returns_nothing example_clip 3 (1 + 1) None
         ((new_PlatformUploader ''TikTok'')
            \<lparr>rateLimiter := fst (checkLimit (rateLimiter (new_PlatformUploader ''TikTok'')) world0)\<rparr>)
         ((snd (checkLimit (rateLimiter (new_PlatformUploader ''TikTok'')) world0))
            \<lparr>invocations := invocations world0
                 @ [(platformName (new_PlatformUploader ''TikTok''), title example_clip)],
             clock := clock (snd (checkLimit (rateLimiter (new_PlatformUploader ''TikTok'')) world0))
                        + int 1500\<rparr>) \<and>
   (\<forall>k. \<exists>r took. returns_nothing example_clip k = (Returns r, took) \<and> \<not> truthy r) \<and>
   (case uploadWithRetry returns_nothing example_clip 3 (new_PlatformUploader ''TikTok'') world0 of
      (res, up', w') \<Rightarrow>
        \<not> success res \<and> error res = None \<and>
        invocations w' = [(''TikTok'', ''Demo''), (''TikTok'', ''Demo''), (''TikTok'', ''Demo'')] \<and>
        backoffs w' = [])"
proof -
  note T = uploadWithRetry_falsy_result
          [where op = returns_nothing and clip = example_clip and w = world0 and attempt = 1
             and maxRetries = 3 and r = None and took = 1500 and lastError = None
             and up = "new_PlatformUploader ''TikTok''"]
  have h1: "(1::nat) \<le> 3 \<and>
      returns_nothing example_clip (length (invocations world0)) = (Returns None, 1500) \<and>
      \<not> truthy None"
    by (simp add: returns_nothing_def world0_def)
  have h2: "\<forall>k. \<exists>r took. returns_nothing example_clip k = (Returns r, took) \<and> \<not> truthy r"
    by (simp add: returns_nothing_def)
  have c1: "retry_loop returns_nothing example_clip 3 1 None (new_PlatformUploader ''TikTok'') world0
     = retry_loop returns_nothing example_clip 3 (1 + 1) None
         ((new_PlatformUploader ''TikTok'')
            \<lparr>rateLimiter := fst (checkLimit (rateLimiter (new_PlatformUploader ''TikTok'')) world0)\<rparr>)
         ((snd (checkLimit (rateLimiter (new_PlatformUploader ''TikTok'')) world0))
            \<lparr>invocations := invocations world0
                 @ [(platformName (new_PlatformUploader ''TikTok''), title example_clip)],
             clock := clock (snd (checkLimit (rateLimiter (new_PlatformUploader ''TikTok'')) world0))
                        + int 1500\<rparr>)"
    by (rule T [THEN conjunct1, THEN mp, OF h1])
  have c2: "case uploadWithRetry returns_nothing example_clip 3 (new_PlatformUploader ''TikTok'') world0 of
      (res, up', w') \<Rightarrow>
        \<not> success res \<and> error res = None \<and>
        invocations w' = [(''TikTok'', ''Demo''), (''TikTok'', ''Demo''), (''TikTok'', ''Demo'')] \<and>
        backoffs w' = []"
    using T [THEN conjunct2, THEN mp, OF h2]
    by (simp add: world0_def example_clip_def new_PlatformUploader_def split_def
        numeral_3_eq_3 backoffs_def)
  show ?thesis using h1 h2 c1 c2 by blast
qed

section \<open>Clip validation: when it fails\<close>

lemma trim_empty_iff: "trim s = [] \<longleftrightarrow> list_all js_whitespace s"
proof -
  have "dropWhile js_whitespace (rev (dropWhile js_whitespace s)) = []
          \<longleftrightarrow> dropWhile js_whitespace s = []"
  proof (cases "dropWhile js_whitespace s = []")
    case True
    show ?thesis unfolding True by simp
  next
    case False
    then have "\<not> js_whitespace (hd (dropWhile js_whitespace s))"
      by (rule hd_dropWhile)
    moreover have "hd (dropWhile js_whitespace s) \<in> set (rev (dropWhile js_whitespace s))"
      using False by simp
    ultimately have "dropWhile js_whitespace (rev (dropWhile js_whitespace s)) \<noteq> []"
      by (auto simp: dropWhile_eq_Nil_conv)
    with False show ?thesis by blast
  qed
  then have "trim s = [] \<longleftrightarrow> dropWhile js_whitespace s = []"
    by (simp add: trim_def)
  also have "\<dots> \<longleftrightarrow> list_all js_whitespace s"
    by (simp add: dropWhile_eq_Nil_conv list_all_iff)
  finally show ?thesis .
qed

lemma too_large_iff: "(500::rat) < of_nat bytes / (1024 * 1024) \<longleftrightarrow> 500 * 1024 * 1024 < bytes"
proof -
  have "(500::rat) < of_nat bytes / (1024 * 1024) \<longleftrightarrow> (524288000::rat) < of_nat bytes"
    by (simp add: field_simps)
  also have "\<dots> \<longleftrightarrow> (of_nat 524288000 :: rat) < of_nat bytes" by simp
  also have "\<dots> \<longleftrightarrow> 524288000 < bytes" by (simp only: of_nat_less_iff)
  finally show ?thesis by simp
qed

text \<open>
  C5. \<^verbatim>\<open>validate()\<close> throws exactly when the path does not exist, or the title is empty or
  all white space, or the file is larger than 500 MB (500 * 1024 * 1024 bytes); otherwise
  it returns \<^verbatim>\<open>true\<close>. It reads the disk and the clip only, and a batch of one clip that
  fails validation leaves the world as it was: no upload call, no sleep, no record.
\<close>

theorem validate_fails_iff:
  "((\<exists>e. validate fs c = Inl e) \<longleftrightarrow>
      fs (filePath c) = None \<or> list_all js_whitespace (title c) \<or>
      (\<exists>bytes. fs (filePath c) = Some bytes \<and> 500 * 1024 * 1024 < bytes)) \<and>
   (validate fs c = Inr True \<longleftrightarrow>
      (\<exists>bytes. fs (filePath c) = Some bytes \<and> bytes \<le> 500 * 1024 * 1024) \<and>
      \<not> list_all js_whitespace (title c)) \<and>
   ((\<exists>e. validate (files env) c = Inl e) \<longrightarrow>
      (\<exists>b'. process_clips cfg env [c] (b, w) = Inr ([c], b', w)))"
proof (intro conjI)
  show "(\<exists>e. validate fs c = Inl e) \<longleftrightarrow>
      fs (filePath c) = None \<or> list_all js_whitespace (title c) \<or>
      (\<exists>bytes. fs (filePath c) = Some bytes \<and> 500 * 1024 * 1024 < bytes)"
    using trim_empty_iff [of "title c"]
    by (cases "fs (filePath c)") (auto simp: validate_def Let_def too_large_iff)
  show "validate fs c = Inr True \<longleftrightarrow>
      (\<exists>bytes. fs (filePath c) = Some bytes \<and> bytes \<le> 500 * 1024 * 1024) \<and>
      \<not> list_all js_whitespace (title c)"
    using trim_empty_iff [of "title c"]
    by (cases "fs (filePath c)") (auto simp: validate_def Let_def too_large_iff)
  show "(\<exists>e. validate (files env) c = Inl e) \<longrightarrow>
      (\<exists>b'. process_clips cfg env [c] (b, w) = Inr ([c], b', w))"
    by auto
qed

theorem validate_fails_iff_witness:
  "(\<exists>e. validate (files example_env) (example_clip\<lparr>filePath := ''missing.mp4''\<rparr>) = Inl e) \<and>
   example_files (filePath (example_clip\<lparr>filePath := ''missing.mp4''\<rparr>)) = None \<and>
   (\<exists>b'. process_clips CONFIG_default example_env
           [example_clip\<lparr>filePath := ''missing.mp4''\<rparr>] (example_batch, world0)
         = Inr ([example_clip\<lparr>filePath := ''missing.mp4''\<rparr>], b', world0))"
proof -
  note T = validate_fails_iff
             [where fs = example_files and c = "example_clip\<lparr>filePath := ''missing.mp4''\<rparr>"
                and env = example_env and cfg = CONFIG_default and b = example_batch
                and w = world0]
  have h: "example_files (filePath (example_clip\<lparr>filePath := ''missing.mp4''\<rparr>)) = None"
    by (simp add: example_files_def)
  have e: "\<exists>e. validate (files example_env) (example_clip\<lparr>filePath := ''missing.mp4''\<rparr>) = Inl e"
    using T [THEN conjunct1] h by (simp add: example_env_def)
  show ?thesis
    using T [THEN conjunct2, THEN conjunct2, THEN mp, OF e] e h by blast
qed

section \<open>Analytics: the stored rate and the snapshot\<close>

text \<open>
  C4. The claim: after every \<^verbatim>\<open>recordUpload\<close>, successful or not, the stored success rate
  of the platform is its success count over its attempt count. On the code: a new
  analytics object records one success and then one failure for \<^verbatim>\<open>youtube\<close>. The failure
  raises \<^verbatim>\<open>totalAttempts\<close> to 2 but the rate is assigned on success only, so it stays 1
  where 1 success in 2 attempts is 1/2.
\<close>

theorem recordUpload_failure_leaves_rate:
  "(case new_Analytics world0 of (d0, w0) \<Rightarrow>
      case recordUpload ''youtube'' True None d0 w0 of
        Inl thrown \<Rightarrow> False
      | Inr (d1, w1) \<Rightarrow>
      case recordUpload ''youtube'' False (Some ''quota_exceeded'') d1 w1 of
        Inl thrown \<Rightarrow> False
      | Inr (d2, w2) \<Rightarrow>
        map_option successRate (performances w2 (platformPerformance d2) ''youtube'') = Some 1 \<and>
        map_option totalAttempts (performances w2 (platformPerformance d2) ''youtube'') = Some 2 \<and>
        counters w2 (successfulUploads d2) ''youtube'' = Some 1)"
  by (simp add: new_Analytics_def world0_def recordUpload_def increment_def saveToFile_def
      contents_def Let_def inherited_def Object_prototype_names_def)

text \<open>
  C9. The claim: \<^verbatim>\<open>getStats()\<close> returns a copy that later \<^verbatim>\<open>recordUpload\<close> and
  \<^verbatim>\<open>addUploadBatch\<close> calls do not alter. On the code: a snapshot is taken of a new
  analytics object, then one upload and one batch are recorded. The snapshot's own
  \<^verbatim>\<open>totalUploads\<close> stays 0, but its four tables are the live ones: read through the
  snapshot, the success count of \<^verbatim>\<open>youtube\<close> goes from absent to 1, its performance entry
  appears, and the history grows from empty to one entry.
\<close>

theorem getStats_snapshot_changes_later:
  "(case new_Analytics world0 of (d0, w0) \<Rightarrow>
      case recordUpload ''youtube'' True None d0 w0 of
        Inl thrown \<Rightarrow> False
      | Inr (d1, w1) \<Rightarrow>
        v_totalUploads (contents w0 (getStats d0)) = 0 \<and>
        v_totalUploads (contents w1 (getStats d0)) = 0 \<and>
        v_totalUploads (contents w1 (getStats d1)) = 1 \<and>
        v_successfulUploads (contents w0 (getStats d0)) ''youtube'' = None \<and>
        v_successfulUploads (contents w1 (getStats d0)) ''youtube'' = Some 1 \<and>
        map_option totalAttempts (v_platformPerformance (contents w0 (getStats d0)) ''youtube'') = None \<and>
        map_option totalAttempts (v_platformPerformance (contents w1 (getStats d0)) ''youtube'') = Some 1 \<and>
        length (v_uploadHistory (contents w1 (getStats d0))) = 0 \<and>
        length (v_uploadHistory
                  (contents
                     (addUploadBatch
                        \<lparr>timestamp = 0, clipsCount = 1, batchPlatforms = [''youtube''],
                         batchResults = [(''youtube'', [''https://youtube.com/watch?v=yt_1''])],
                         batchFailed = []\<rparr> d1 w1)
                     (getStats d0))) = 1)"
  by (simp add: new_Analytics_def world0_def recordUpload_def increment_def saveToFile_def
      contents_def getStats_def addUploadBatch_def Let_def inherited_def
      Object_prototype_names_def)

section \<open>The batch loop: which uploads are attempted\<close>

lemma sleep_attempts [simp]: "attempts (sleep k ms w) = attempts w"
  by (simp add: sleep_def)

lemma checkLimit_attempts [simp]: "attempts (snd (checkLimit rl w)) = attempts w"
  by (simp add: checkLimit_def Let_def)

lemma recordUpload_returns:
  "p \<notin> set Object_prototype_names \<Longrightarrow>
   \<exists>d' w'. recordUpload p ok err d w = Inr (d', w') \<and> attempts w' = attempts w"
  by (simp add: recordUpload_def inherited_def Let_def saveToFile_def)

lemma random_delay_attempts [simp]: "attempts (random_delay cfg env w) = attempts w"
  by (simp add: random_delay_def)

lemma retry_loop_attempts:
  "Suc maxRetries - attempt = n \<Longrightarrow>
   attempts (snd (snd (retry_loop op clip maxRetries attempt lastError up w))) = attempts w"
proof (induction n arbitrary: attempt lastError up w)
  case 0
  then have "maxRetries < attempt" by simp
  then show ?case by (simp add: retry_loop_done)
next
  case (Suc n)
  then have le: "attempt \<le> maxRetries" and n: "Suc maxRetries - Suc attempt = n" by simp_all
  obtain r took where r: "op clip (length (invocations w)) = (r, took)"
    by (cases "op clip (length (invocations w))")
  show ?case
  proof (cases r)
    case (Throws m)
    with r have t: "op clip (length (invocations w)) = (Throws m, took)" by simp
    show ?thesis
      unfolding retry_loop_throws [where op = op, OF le t] Let_def
      by (simp add: Suc.IH [OF n])
  next
    case (Returns v)
    with r have t: "op clip (length (invocations w)) = (Returns v, took)" by simp
    show ?thesis
      unfolding retry_loop_returns [where op = op, OF le t] Let_def
      by (simp add: Suc.IH [OF n])
  qed
qed

lemma uploadWithRetry_attempts [simp]:
  "attempts (snd (snd (uploadWithRetry op clip maxRetries up w))) = attempts w"
  unfolding uploadWithRetry_def by (rule retry_loop_attempts [OF refl])

lemma map_of_set_key: "map_of (set_key k v kvs) q = (if q = k then Some v else map_of kvs q)"
  by (induction kvs) auto

lemma registered_set_key:
  "registered self p \<Longrightarrow>
   registered (self\<lparr>uploaders := set_key p u (uploaders self)\<rparr>) q = registered self q"
  by (simp add: registered_def map_of_set_key)

lemma registered_analytics [simp]: "registered (self\<lparr>analytics := d\<rparr>) q = registered self q"
  by (simp add: registered_def)

lemma lookup_registered:
  "(\<exists>u. lookup_uploader self p = Registered u) = registered self p"
  by (auto simp: lookup_uploader_def registered_def split: option.splits)

lemma lookup_not_inherited:
  "p \<notin> set Object_prototype_names \<Longrightarrow> lookup_uploader self p \<noteq> Inherited"
  by (simp add: lookup_uploader_def split: option.splits)

lemma upload_to_platform_attempts:
  assumes n: "p \<notin> set Object_prototype_names"
  shows "\<exists>clip' b' w'. upload_to_platform cfg env p (clip, b, w) = Inr (clip', b', w') \<and>
           attempts w' = attempts w @ (if registered (acc_self b) p then [(p, title clip)] else []) \<and>
           title clip' = title clip \<and>
           registered (acc_self b') = registered (acc_self b)"
proof (cases "lookup_uploader (acc_self b) p")
  case (Registered u)
  then have reg: "registered (acc_self b) p" using lookup_registered by blast
  let ?w1 = "(random_delay cfg env w)\<lparr>attempts := attempts w @ [(p, title clip)]\<rparr>"
  let ?r = "uploadWithRetry (upload_of env p) clip (MAX_RETRIES cfg) u ?w1"
  have a2: "attempts (snd (snd ?r)) = attempts w @ [(p, title clip)]" by simp
  show ?thesis
  proof (cases "success (fst ?r)")
    case True
    obtain d' w' where r: "recordUpload p True None (analytics (acc_self b)) (snd (snd ?r)) = Inr (d', w')"
      and a: "attempts w' = attempts (snd (snd ?r))"
      using recordUpload_returns [OF n] by blast
    show ?thesis
      using reg True a a2
      by (simp add: upload_to_platform_def Registered split_def Let_def r fun_eq_iff
          registered_set_key)
  next
    case False
    obtain d' w' where r: "recordUpload p False (error (fst ?r)) (analytics (acc_self b)) (snd (snd ?r))
                             = Inr (d', w')"
      and a: "attempts w' = attempts (snd (snd ?r))"
      using recordUpload_returns [OF n] by blast
    show ?thesis
      using reg False a a2
      by (simp add: upload_to_platform_def Registered split_def Let_def r fun_eq_iff
          registered_set_key)
  qed
next
  case Inherited
  then show ?thesis using lookup_not_inherited [OF n] by simp
next
  case Missing
  then have "\<not> registered (acc_self b) p" using lookup_registered [of "acc_self b" p] by simp
  then show ?thesis
    by (simp add: upload_to_platform_def Missing)
qed

lemma upload_to_platforms_attempts:
  "set ps \<inter> set Object_prototype_names = {} \<Longrightarrow>
   \<exists>clip' b' w'. upload_to_platforms cfg env ps (clip, b, w) = Inr (clip', b', w') \<and>
      attempts w' = attempts w @ map (\<lambda>p. (p, title clip)) (filter (registered (acc_self b)) ps) \<and>
      title clip' = title clip \<and>
      registered (acc_self b') = registered (acc_self b)"
proof (induction ps arbitrary: clip b w)
  case Nil
  show ?case by simp
next
  case (Cons p ps)
  then have n: "p \<notin> set Object_prototype_names"
    and ns: "set ps \<inter> set Object_prototype_names = {}" by auto
  obtain c1 b1 w1 where s: "upload_to_platform cfg env p (clip, b, w) = Inr (c1, b1, w1)"
    and a: "attempts w1 = attempts w @ (if registered (acc_self b) p then [(p, title clip)] else [])"
    and t: "title c1 = title clip"
    and r: "registered (acc_self b1) = registered (acc_self b)"
    using upload_to_platform_attempts [OF n, where cfg = cfg and env = env and clip = clip
            and b = b and w = w] by blast
  obtain c2 b2 w2 where s2: "upload_to_platforms cfg env ps (c1, b1, w1) = Inr (c2, b2, w2)"
    and a2: "attempts w2 = attempts w1
               @ map (\<lambda>p. (p, title c1)) (filter (registered (acc_self b1)) ps)"
    and t2: "title c2 = title c1"
    and r2: "registered (acc_self b2) = registered (acc_self b1)"
    using Cons.IH [OF ns, where clip = c1 and b = b1 and w = w1] by blast
  show ?case
    by (simp add: s s2 a a2 t t2 r r2)
qed

lemma validate_Inr: "validate fs c = Inr ok \<Longrightarrow> ok"
  by (auto simp: validate_def Let_def split: option.splits if_splits)

lemma process_clips_attempts:
  "set (PLATFORMS_TO_UPLOAD cfg) \<inter> set Object_prototype_names = {} \<Longrightarrow>
   \<exists>clips' b' w'. process_clips cfg env clips (b, w) = Inr (clips', b', w') \<and>
      length clips' = length clips \<and>
      attempts w' = attempts w @ expected_attempts cfg env (acc_self b) clips \<and>
      registered (acc_self b') = registered (acc_self b)"
proof (induction clips arbitrary: b w)
  case Nil
  show ?case by (simp add: expected_attempts_def)
next
  case (Cons c cs)
  note ns = Cons.prems
  show ?case
  proof (cases "validate (files env) c")
    case (Inl e)
    let ?b = "b\<lparr>acc_failed := acc_failed b @ [title c @ '': '' @ message e]\<rparr>"
    obtain cs' b' w' where s: "process_clips cfg env cs (?b, w) = Inr (cs', b', w')"
      and l: "length cs' = length cs"
      and a: "attempts w' = attempts w @ expected_attempts cfg env (acc_self ?b) cs"
      and r: "registered (acc_self b') = registered (acc_self ?b)"
      using Cons.IH [OF ns, where b = ?b and w = w] by blast
    have step: "process_clips cfg env (c # cs) (b, w) = Inr (c # cs', b', w')"
      using s by (simp add: Inl)
    show ?thesis
      unfolding step using a r l by (simp add: Inl expected_attempts_def)
  next
    case (Inr ok)
    then have v: "validate (files env) c = Inr True"
      using validate_Inr [of "files env" c ok] by simp
    obtain c1 b1 w1 where s:
      "upload_to_platforms cfg env (PLATFORMS_TO_UPLOAD cfg) (c, b, w) = Inr (c1, b1, w1)"
      and a: "attempts w1 = attempts w
               @ map (\<lambda>p. (p, title c)) (filter (registered (acc_self b)) (PLATFORMS_TO_UPLOAD cfg))"
      and r: "registered (acc_self b1) = registered (acc_self b)"
      using upload_to_platforms_attempts [OF ns, where cfg = cfg and env = env and clip = c
              and b = b and w = w] by blast
    define w2 where "w2 = (if STAGGER_UPLOADS cfg \<and> cs \<noteq> []
               then sleep Stagger (Num (STAGGER_MINUTES cfg * 60 * 1000)) w1 else w1)"
    have a2: "attempts w2 = attempts w1" by (simp add: w2_def)
    obtain cs' b' w' where s2: "process_clips cfg env cs (b1, w2) = Inr (cs', b', w')"
      and l: "length cs' = length cs"
      and a3: "attempts w' = attempts w2 @ expected_attempts cfg env (acc_self b1) cs"
      and r3: "registered (acc_self b') = registered (acc_self b1)"
      using Cons.IH [OF ns, where b = b1 and w = w2] by blast
    have step: "process_clips cfg env (c # cs) (b, w) = Inr (c1 # cs', b', w')"
      using s2 unfolding w2_def by (simp add: v s)
    show ?thesis
      unfolding step using a a2 a3 r r3 l
      by (simp add: v expected_attempts_def)
  qed
qed

lemma addUploadBatch_attempts [simp]: "attempts (addUploadBatch summary d w) = attempts w"
  by (simp add: addUploadBatch_def saveToFile_def)

lemma uploadClips_attempts:
  assumes "set (PLATFORMS_TO_UPLOAD cfg) \<inter> set Object_prototype_names = {}"
  shows "\<exists>res clips' self' w'. uploadClips cfg env clips self w = Inr (res, clips', self', w') \<and>
           status res = ''completed'' \<and> length clips' = length clips \<and>
           attempts w' = attempts w @ expected_attempts cfg env self clips"
proof -
  let ?b = "\<lparr>acc_results = fold (\<lambda>p r. set_key p [] r) (PLATFORMS_TO_UPLOAD cfg) [],
             acc_failed = [], acc_self = self\<rparr>"
  obtain clips' b' w' where s: "process_clips cfg env clips (?b, w) = Inr (clips', b', w')"
    and l: "length clips' = length clips"
    and a: "attempts w' = attempts w @ expected_attempts cfg env (acc_self ?b) clips"
    using process_clips_attempts [OF assms, where env = env and clips = clips and b = ?b and w = w]
    by blast
  show ?thesis
    using a l by (simp add: uploadClips_def s Let_def)
qed

lemma new_SocialMediaUploader_attempts [simp]:
  "attempts (snd (new_SocialMediaUploader w)) = attempts w"
  by (simp add: new_SocialMediaUploader_def new_Analytics_def split_def Let_def)

lemma run_job_attempts:
  assumes "set (PLATFORMS_TO_UPLOAD cfg) \<inter> set Object_prototype_names = {}"
  shows "attempts (snd (run_job cfg env listener j w))
           = attempts w @ expected_attempts cfg env (fst (new_SocialMediaUploader w)) [jobClip j]"
proof -
  obtain res clips' self' w' where
    u: "uploadClips cfg env [jobClip j] (fst (new_SocialMediaUploader w))
          (snd (new_SocialMediaUploader w)) = Inr (res, clips', self', w')"
    and a: "attempts w' = attempts (snd (new_SocialMediaUploader w))
              @ expected_attempts cfg env (fst (new_SocialMediaUploader w)) [jobClip j]"
    using uploadClips_attempts [OF assms] by blast
  show ?thesis
    using a by (simp add: run_job_def u Let_def split: option.splits)
qed

lemma default_platforms_own:
  "set (PLATFORMS_TO_UPLOAD CONFIG_default) \<inter> set Object_prototype_names = {}"
  by (simp add: CONFIG_default_def Object_prototype_names_def)

lemma registered_new:
  "registered (fst (new_SocialMediaUploader w)) p
     = (p \<in> {''youtube'', ''instagram'', ''tiktok'', ''linkedin'', ''twitter''})"
  by (auto simp: registered_def new_SocialMediaUploader_def split_def Let_def)

lemma example_clip_valid: "validate example_files example_clip = Inr True"
  by (simp add: validate_def example_files_def example_clip_def trim_def js_whitespace_def Let_def)

lemma expected_attempts_example:
  "title c = ''Demo'' \<Longrightarrow> filePath c = ''clips/demo.mp4'' \<Longrightarrow>
   expected_attempts CONFIG_default example_env (fst (new_SocialMediaUploader w)) [c]
     = [(''youtube'', ''Demo''), (''instagram'', ''Demo''), (''tiktok'', ''Demo'')]"
  by (simp add: expected_attempts_def example_env_def validate_def example_files_def
      trim_def js_whitespace_def Let_def CONFIG_default_def registered_new)

text \<open>
  C1. The claim: for every clip, uploads are attempted exactly on the platforms of the
  clip's own \<^verbatim>\<open>platforms\<close> list, so a job made by \<^verbatim>\<open>schedulePlatformUploads\<close> uploads to its
  one platform only. On the code: the loop runs over \<^verbatim>\<open>CONFIG.PLATFORMS_TO_UPLOAD\<close> and never
  reads \<^verbatim>\<open>clip.platforms\<close>. A clip whose list is \<^verbatim>\<open>['tiktok']\<close> is attempted on youtube,
  instagram and tiktok; so is the clip of the job that \<^verbatim>\<open>schedulePlatformUploads\<close> makes
  for \<^verbatim>\<open>{ tiktok: '18:00' }\<close>, when the tick at 18:00 runs it.
\<close>

theorem uploadClips_ignores_clip_platforms:
  "(case new_SocialMediaUploader world0 of (self, w) \<Rightarrow>
      case uploadClips CONFIG_default example_env [example_clip] self w of
        Inl rejected \<Rightarrow> False
      | Inr (res, clips', self', w') \<Rightarrow>
          platforms example_clip = [''tiktok''] \<and>
          attempts w' = [(''youtube'', ''Demo''), (''instagram'', ''Demo''), (''tiktok'', ''Demo'')]) \<and>
   (case schedulePlatformUploads example_env example_clip [(''tiktok'', ''18:00'')]
           new_UploadScheduler world0 of (jobIds, sch, w) \<Rightarrow>
      case checkScheduledJobs CONFIG_default example_env (\<lambda>j. None) sch (advance 64800000 w) of
        (sch', w') \<Rightarrow>
          map (\<lambda>kj. (platforms (jobClip (snd kj)), jobScheduleTime (snd kj), jobStatus (snd kj)))
              (scheduledJobs sch) = [([''tiktok''], Some 64800000, Scheduled)] \<and>
          attempts w' = [(''youtube'', ''Demo''), (''instagram'', ''Demo''), (''tiktok'', ''Demo'')])"
proof (intro conjI)
  obtain res clips' self' w' where
    u: "uploadClips CONFIG_default example_env [example_clip] (fst (new_SocialMediaUploader world0))
          (snd (new_SocialMediaUploader world0)) = Inr (res, clips', self', w')"
    and a: "attempts w' = attempts (snd (new_SocialMediaUploader world0))
              @ expected_attempts CONFIG_default example_env (fst (new_SocialMediaUploader world0))
                  [example_clip]"
    using uploadClips_attempts [OF default_platforms_own] by blast
  have e: "expected_attempts CONFIG_default example_env (fst (new_SocialMediaUploader world0))
             [example_clip]
           = [(''youtube'', ''Demo''), (''instagram'', ''Demo''), (''tiktok'', ''Demo'')]"
    by (rule expected_attempts_example) (simp_all add: example_clip_def)
  show "case new_SocialMediaUploader world0 of (self, w) \<Rightarrow>
      case uploadClips CONFIG_default example_env [example_clip] self w of
        Inl rejected \<Rightarrow> False
      | Inr (res, clips', self', w') \<Rightarrow>
          platforms example_clip = [''tiktok''] \<and>
          attempts w' = [(''youtube'', ''Demo''), (''instagram'', ''Demo''), (''tiktok'', ''Demo'')]"
    using a e by (simp add: split_def u) (simp add: example_clip_def world0_def)
next
  have t: "platform_schedule_time example_env 0 ''18:00'' = Some 64800000"
    by (simp add: platform_schedule_time_def parseInt_element_def parseInt_def setHours_def
        localTime_def example_env_def msPerDay_def js_whitespace_def digit_value_def Let_def)
  let ?j = "\<lparr>jobId = (0, ''k3x9q2m1z''), jobClip = platform_clip example_clip ''tiktok'' world0,
             jobScheduleTime = Some 64800000, jobStatus = Scheduled, jobCreatedAt = 0,
             jobResult = None, jobError = None\<rparr>"
  let ?sch = "\<lparr>scheduledJobs = [((0, ''k3x9q2m1z''), ?j)], timers = []\<rparr>"
  let ?w = "world0\<lparr>draws := 1\<rparr>"
  have sched: "schedulePlatformUploads example_env example_clip [(''tiktok'', ''18:00'')]
                 new_UploadScheduler world0 = ([(0, ''k3x9q2m1z'')], ?sch, ?w)"
    using t by (simp add: scheduleUpload_def new_UploadScheduler_def world0_def Let_def)
               (simp add: example_env_def)
  have c: "title (platform_clip example_clip ''tiktok'' world0) = ''Demo''"
          "filePath (platform_clip example_clip ''tiktok'' world0) = ''clips/demo.mp4''"
          "platforms (platform_clip example_clip ''tiktok'' world0) = [''tiktok'']"
    by (simp_all add: platform_clip_def example_clip_def)
  have run: "attempts (snd (run_job CONFIG_default example_env (\<lambda>j. None)
                              (?j\<lparr>jobStatus := Executing\<rparr>) (advance 64800000 ?w)))
               = [(''youtube'', ''Demo''), (''instagram'', ''Demo''), (''tiktok'', ''Demo'')]"
    using run_job_attempts [OF default_platforms_own, where env = example_env
            and listener = "\<lambda>j. None" and j = "?j\<lparr>jobStatus := Executing\<rparr>"
            and w = "advance 64800000 ?w"]
          expected_attempts_example [OF c(1,2), where w = "advance 64800000 ?w"]
    by (simp add: advance_def world0_def)
  have tick: "attempts (snd (checkScheduledJobs CONFIG_default example_env (\<lambda>j. None) ?sch
                               (advance 64800000 ?w)))
                = [(''youtube'', ''Demo''), (''instagram'', ''Demo''), (''tiktok'', ''Demo'')]"
    using run
    by (simp add: checkScheduledJobs_def visit_def resolve_job_def mark_executing_def split_def
        advance_def world0_def Let_def)
  show "case schedulePlatformUploads example_env example_clip [(''tiktok'', ''18:00'')]
           new_UploadScheduler world0 of (jobIds, sch, w) \<Rightarrow>
      case checkScheduledJobs CONFIG_default example_env (\<lambda>j. None) sch (advance 64800000 w) of
        (sch', w') \<Rightarrow>
          map (\<lambda>kj. (platforms (jobClip (snd kj)), jobScheduleTime (snd kj), jobStatus (snd kj)))
              (scheduledJobs sch) = [([''tiktok''], Some 64800000, Scheduled)] \<and>
          attempts w' = [(''youtube'', ''Demo''), (''instagram'', ''Demo''), (''tiktok'', ''Demo'')]"
    unfolding sched using tick c by (simp add: split_def)
qed

text \<open>
  C6. The claim: no error of a clip or of a platform stops a batch, and the batch call
  never raises. On the code: the configured platforms are \<^verbatim>\<open>constructor\<close> and \<^verbatim>\<open>tiktok\<close>,
  and the clip is valid. \<^verbatim>\<open>this.uploaders['constructor']\<close> is the inherited \<^verbatim>\<open>Object\<close>, so the
  guard for an unknown platform lets it pass and \<^verbatim>\<open>uploader.uploadWithRetry\<close> is not a
  function. The catch block pushes the failure entry and calls \<^verbatim>\<open>recordUpload\<close>, which
  throws in turn, and nothing catches that: \<^verbatim>\<open>uploadClips\<close> rejects, and tiktok, which names
  an uploader, is never attempted.
\<close>

theorem uploadClips_rejects_on_inherited_name:
  "validate (files example_env) example_clip = Inr True \<and>
   registered (fst (new_SocialMediaUploader world0)) ''tiktok'' \<and>
   (case new_SocialMediaUploader world0 of (self, w) \<Rightarrow>
      case uploadClips inherited_config example_env [example_clip] self w of
        Inl (msg, clips', w') \<Rightarrow>
          msg = ''Cannot read properties of undefined (reading '' @ [CHR 0x27]
                  @ ''uploader.uploadWithRetry is not a function'' @ [CHR 0x27] @ '')'' \<and>
          attempts w' = [] \<and> invocations w' = []
      | Inr returned \<Rightarrow> False)"
proof -
  have v: "validate (files example_env) example_clip = Inr True"
    using example_clip_valid by (simp add: example_env_def)
  have r: "registered (fst (new_SocialMediaUploader world0)) ''tiktok''"
    by (simp add: registered_new)
  have l: "lookup_uploader (fst (new_SocialMediaUploader world0)) ''constructor'' = Inherited"
    by (simp add: lookup_uploader_def new_SocialMediaUploader_def split_def Let_def
        Object_prototype_names_def)
  have u: "case uploadClips inherited_config example_env [example_clip]
                  (fst (new_SocialMediaUploader world0)) (snd (new_SocialMediaUploader world0)) of
        Inl (msg, clips', w') \<Rightarrow>
          msg = ''Cannot read properties of undefined (reading '' @ [CHR 0x27]
                  @ ''uploader.uploadWithRetry is not a function'' @ [CHR 0x27] @ '')'' \<and>
          attempts w' = [] \<and> invocations w' = []
      | Inr returned \<Rightarrow> False"
    using v l
    by (simp add: uploadClips_def inherited_config_def CONFIG_default_def upload_to_platform_def
        catch_block_def recordUpload_def inherited_def Object_prototype_names_def
        random_delay_def sleep_def new_SocialMediaUploader_def new_Analytics_def world0_def
        split_def Let_def)
  show ?thesis using v r u by (simp add: split_def)
qed

section \<open>The scheduler: when a platform job is due\<close>

lemma day_div: "0 \<le> r \<Longrightarrow> r < msPerDay \<Longrightarrow> (q * msPerDay + r) div msPerDay = q"
  by (simp add: msPerDay_def div_pos_pos_trivial)

lemma day_mod: "0 \<le> r \<Longrightarrow> r < msPerDay \<Longrightarrow> (q * msPerDay + r) mod msPerDay = r"
  by (simp add: msPerDay_def mod_pos_pos_trivial)

lemma tod_bounds:
  "0 \<le> h \<Longrightarrow> h < 24 \<Longrightarrow> 0 \<le> m \<Longrightarrow> m < 60 \<Longrightarrow>
   0 \<le> h * 3600000 + m * 60000 \<and> h * 3600000 + m * 60000 < msPerDay"
  by (simp add: msPerDay_def)

lemma platform_schedule_time_cases:
  assumes p: "parseInt_element (split_on CHR '':'' time) 0 = Some h"
             "parseInt_element (split_on CHR '':'' time) 1 = Some m"
    and b: "0 \<le> h" "h < 24" "0 \<le> m" "m < 60"
  shows "(h * 3600000 + m * 60000 < localTime env now mod msPerDay \<longrightarrow>
            (\<exists>t. platform_schedule_time env now time = Some t \<and> now < t \<and>
                 localTime env t div msPerDay = localTime env now div msPerDay + 1 \<and>
                 localTime env t mod msPerDay = h * 3600000 + m * 60000)) \<and>
         (localTime env now mod msPerDay \<le> h * 3600000 + m * 60000 \<longrightarrow>
            (\<exists>t. platform_schedule_time env now time = Some t \<and> now \<le> t \<and>
                 localTime env t div msPerDay = localTime env now div msPerDay \<and>
                 localTime env t mod msPerDay = h * 3600000 + m * 60000))"
proof -
  let ?tod = "h * 3600000 + m * 60000"
  let ?local = "localTime env now"
  let ?today = "?local div msPerDay * msPerDay + ?tod"
  have tb: "0 \<le> ?tod" "?tod < msPerDay" using tod_bounds [OF b] by simp_all
  have now: "?local = ?local div msPerDay * msPerDay + ?local mod msPerDay" by simp
  have lt: "?today - localOffset env < now \<longleftrightarrow> ?tod < ?local mod msPerDay"
    using now unfolding localTime_def by linarith
  have d0: "?today div msPerDay = ?local div msPerDay" using day_div [OF tb] .
  have m0: "?today mod msPerDay = ?tod" using day_mod [OF tb] .
  have e: "?today + msPerDay = (?local div msPerDay + 1) * msPerDay + ?tod"
    by (simp add: algebra_simps)
  have d1: "(?today + msPerDay) div msPerDay = ?local div msPerDay + 1"
    unfolding e by (rule day_div [OF tb])
  have m1: "(?today + msPerDay) mod msPerDay = ?tod"
    unfolding e by (rule day_mod [OF tb])
  have l0: "localTime env (?today - localOffset env) = ?today"
    and l1: "localTime env (?today - localOffset env + msPerDay) = ?today + msPerDay"
    by (simp_all add: localTime_def)
  have pst: "platform_schedule_time env now time
               = (if ?today - localOffset env < now
                  then Some (?today - localOffset env + msPerDay)
                  else Some (?today - localOffset env))"
    using p by (simp add: platform_schedule_time_def setHours_def Let_def add.assoc)
  have later: "?tod < ?local mod msPerDay \<Longrightarrow> now < ?today - localOffset env + msPerDay"
    using now tb pos_mod_bound [of msPerDay ?local] unfolding localTime_def
    by (simp add: msPerDay_def)
  show ?thesis
    unfolding pst lt l0 l1 using d0 m0 d1 m1 later lt
    by (auto simp: l0 l1)
qed

lemma platform_clip_draws [simp]: "platform_clip clip p (w\<lparr>draws := n\<rparr>) = platform_clip clip p w"
  by (simp add: platform_clip_def)

lemma schedulePlatformUploads_planned:
  "schedulePlatformUploads env clip entries sch w
     = (map fst (planned env clip entries w),
        sch\<lparr>scheduledJobs := fold (\<lambda>kj. set_key (fst kj) (snd kj)) (planned env clip entries w)
                                 (scheduledJobs sch)\<rparr>,
        w\<lparr>draws := draws w + length entries\<rparr>)"
proof (induction entries arbitrary: sch w)
  case Nil
  show ?case by simp
next
  case (Cons entry entries)
  show ?case
    by (simp add: scheduleUpload_def Let_def Cons.IH)
qed

lemma fold_set_key_other:
  "k \<notin> fst ` set kjs \<Longrightarrow>
   map_of (fold (\<lambda>kj. set_key (fst kj) (snd kj)) kjs xs) k = map_of xs k"
  by (induction kjs arbitrary: xs) (auto simp: map_of_set_key)

lemma fold_set_key_distinct:
  "distinct (map fst kjs) \<Longrightarrow> i < length kjs \<Longrightarrow>
   map_of (fold (\<lambda>kj. set_key (fst kj) (snd kj)) kjs xs) (fst (kjs ! i)) = Some (snd (kjs ! i))"
proof (induction kjs arbitrary: xs i)
  case Nil
  then show ?case by simp
next
  case (Cons kj kjs)
  show ?case
  proof (cases i)
    case 0
    have "fst kj \<notin> fst ` set kjs" using Cons.prems(1) by auto
    then show ?thesis
      using 0 by (simp add: fold_set_key_other map_of_set_key)
  next
    case (Suc i')
    then show ?thesis using Cons by simp
  qed
qed

lemma planned_length [simp]: "length (planned env clip entries w) = length entries"
  by (induction entries arbitrary: w) auto

lemma planned_nth:
  "i < length entries \<Longrightarrow>
   jobStatus (snd (planned env clip entries w ! i)) = Scheduled \<and>
   platforms (jobClip (snd (planned env clip entries w ! i))) = [fst (entries ! i)] \<and>
   jobScheduleTime (snd (planned env clip entries w ! i))
     = platform_schedule_time env (clock w) (snd (entries ! i))"
proof (induction entries arbitrary: w i)
  case Nil
  then show ?case by simp
next
  case (Cons entry entries)
  show ?case
  proof (cases i)
    case 0
    then show ?thesis by (simp add: platform_clip_def)
  next
    case (Suc i')
    then show ?thesis
      using Cons.IH [of i' "w\<lparr>draws := draws w + 1\<rparr>"] Cons.prems by simp
  qed
qed

lemma planned_ids:
  "map fst (planned env clip entries w)
     = map (\<lambda>i. (clock w, random_suffix env i)) [draws w..<draws w + length entries]"
proof (induction entries arbitrary: w)
  case Nil
  show ?case by simp
next
  case (Cons entry entries)
  have "[draws w..<draws w + Suc (length entries)]
          = draws w # [Suc (draws w)..<Suc (draws w) + length entries]"
    by (subst upt_rec) simp
  then show ?case
    using Cons.IH [of "w\<lparr>draws := draws w + 1\<rparr>"] by simp
qed

lemma planned_ids_distinct:
  "distinct (map (random_suffix env) [draws w..<draws w + length entries]) \<Longrightarrow>
   distinct (map fst (planned env clip entries w))"
proof -
  assume d: "distinct (map (random_suffix env) [draws w..<draws w + length entries])"
  have "inj_on (random_suffix env) (set [draws w..<draws w + length entries])"
    using d by (simp add: distinct_map)
  then have "inj_on (\<lambda>i. (clock w, random_suffix env i)) (set [draws w..<draws w + length entries])"
    by (auto simp: inj_on_def)
  then show ?thesis
    unfolding planned_ids by (simp add: distinct_map)
qed

text \<open>
  C7. \<^verbatim>\<open>schedulePlatformUploads\<close> returns one job id for each entry of the schedule. When
  the random suffixes drawn for them differ, the ids differ, and the job under the
  \<open>i\<close>-th id is scheduled, is for the \<open>i\<close>-th platform alone, and is due at the time
  computed from the \<open>i\<close>-th time of day. For a time of day \<^verbatim>\<open>h:m\<close> with \<open>0 \<le> h < 24\<close> and
  \<open>0 \<le> m < 60\<close>, in the local time of the host: when \<^verbatim>\<open>h:m\<close> is already past at the call,
  the target is later than the call, on the following local day, at \<^verbatim>\<open>h:m\<close>; when \<^verbatim>\<open>h:m\<close>
  is still to come, the target is not before the call, on the same local day, at \<^verbatim>\<open>h:m\<close>.
\<close>

theorem schedulePlatformUploads_next_occurrence:
  "(case schedulePlatformUploads env clip entries sch w of (jobIds, sch', w') \<Rightarrow>
      length jobIds = length entries \<and>
      (distinct (map (random_suffix env) [draws w..<draws w + length entries]) \<longrightarrow>
         distinct jobIds \<and>
         (\<forall>i<length entries. \<exists>j.
            map_of (scheduledJobs sch') (jobIds ! i) = Some j \<and> jobStatus j = Scheduled \<and>
            platforms (jobClip j) = [fst (entries ! i)] \<and>
            jobScheduleTime j = platform_schedule_time env (clock w) (snd (entries ! i))))) \<and>
   (parseInt_element (split_on CHR '':'' time) 0 = Some h \<and>
    parseInt_element (split_on CHR '':'' time) 1 = Some m \<and>
    0 \<le> h \<and> h < 24 \<and> 0 \<le> m \<and> m < 60 \<longrightarrow>
      (h * 3600000 + m * 60000 < localTime env now mod msPerDay \<longrightarrow>
         (\<exists>t. platform_schedule_time env now time = Some t \<and> now < t \<and>
              localTime env t div msPerDay = localTime env now div msPerDay + 1 \<and>
              localTime env t mod msPerDay = h * 3600000 + m * 60000)) \<and>
      (localTime env now mod msPerDay < h * 3600000 + m * 60000 \<longrightarrow>
         (\<exists>t. platform_schedule_time env now time = Some t \<and> now \<le> t \<and>
              localTime env t div msPerDay = localTime env now div msPerDay \<and>
              localTime env t mod msPerDay = h * 3600000 + m * 60000)))"
proof (intro conjI)
  let ?kjs = "planned env clip entries w"
  have "distinct (map fst ?kjs) \<and>
        (\<forall>i<length entries. \<exists>j.
            map_of (fold (\<lambda>kj. set_key (fst kj) (snd kj)) ?kjs (scheduledJobs sch))
              (map fst ?kjs ! i) = Some j \<and> jobStatus j = Scheduled \<and>
            platforms (jobClip j) = [fst (entries ! i)] \<and>
            jobScheduleTime j = platform_schedule_time env (clock w) (snd (entries ! i)))"
    if r: "distinct (map (random_suffix env) [draws w..<draws w + length entries])"
  proof (intro conjI allI impI)
    show d: "distinct (map fst ?kjs)" using r by (rule planned_ids_distinct)
    fix i assume i: "i < length entries"
    then have "map_of (fold (\<lambda>kj. set_key (fst kj) (snd kj)) ?kjs (scheduledJobs sch))
                 (map fst ?kjs ! i) = Some (snd (?kjs ! i))"
      using fold_set_key_distinct [OF d, of i "scheduledJobs sch"] by simp
    then show "\<exists>j. map_of (fold (\<lambda>kj. set_key (fst kj) (snd kj)) ?kjs (scheduledJobs sch))
              (map fst ?kjs ! i) = Some j \<and> jobStatus j = Scheduled \<and>
            platforms (jobClip j) = [fst (entries ! i)] \<and>
            jobScheduleTime j = platform_schedule_time env (clock w) (snd (entries ! i))"
      using planned_nth [OF i, of env clip w] by blast
  qed
  then show "case schedulePlatformUploads env clip entries sch w of (jobIds, sch', w') \<Rightarrow>
      length jobIds = length entries \<and>
      (distinct (map (random_suffix env) [draws w..<draws w + length entries]) \<longrightarrow>
         distinct jobIds \<and>
         (\<forall>i<length entries. \<exists>j.
            map_of (scheduledJobs sch') (jobIds ! i) = Some j \<and> jobStatus j = Scheduled \<and>
            platforms (jobClip j) = [fst (entries ! i)] \<and>
            jobScheduleTime j = platform_schedule_time env (clock w) (snd (entries ! i))))"
    by (simp add: schedulePlatformUploads_planned)
next
  show "parseInt_element (split_on CHR '':'' time) 0 = Some h \<and>
    parseInt_element (split_on CHR '':'' time) 1 = Some m \<and>
    0 \<le> h \<and> h < 24 \<and> 0 \<le> m \<and> m < 60 \<longrightarrow>
      (h * 3600000 + m * 60000 < localTime env now mod msPerDay \<longrightarrow>
         (\<exists>t. platform_schedule_time env now time = Some t \<and> now < t \<and>
              localTime env t div msPerDay = localTime env now div msPerDay + 1 \<and>
              localTime env t mod msPerDay = h * 3600000 + m * 60000)) \<and>
      (localTime env now mod msPerDay < h * 3600000 + m * 60000 \<longrightarrow>
         (\<exists>t. platform_schedule_time env now time = Some t \<and> now \<le> t \<and>
              localTime env t div msPerDay = localTime env now div msPerDay \<and>
              localTime env t mod msPerDay = h * 3600000 + m * 60000))"
    using platform_schedule_time_cases [of time h m env now] by auto
qed

theorem schedulePlatformUploads_next_occurrence_witness:
  "distinct (map (random_suffix example_env_east)
               [draws (advance 43200000 world0)..<
                draws (advance 43200000 world0) + length example_schedule]) \<and>
   fst (schedulePlatformUploads example_env_east example_clip example_schedule
          new_UploadScheduler (advance 43200000 world0))
     = [(43200000, ''k3x9q2m1z''), (43200000, ''p7d4w8n5c'')] \<and>
   (\<exists>j. map_of (scheduledJobs (fst (snd (schedulePlatformUploads example_env_east example_clip
                    example_schedule new_UploadScheduler (advance 43200000 world0)))))
          (43200000, ''k3x9q2m1z'') = Some j \<and>
        jobStatus j = Scheduled \<and> platforms (jobClip j) = [''youtube''] \<and>
        jobScheduleTime j = Some 124200000) \<and>
   (\<exists>j. map_of (scheduledJobs (fst (snd (schedulePlatformUploads example_env_east example_clip
                    example_schedule new_UploadScheduler (advance 43200000 world0)))))
          (43200000, ''p7d4w8n5c'') = Some j \<and>
        jobStatus j = Scheduled \<and> platforms (jobClip j) = [''tiktok''] \<and>
        jobScheduleTime j = Some 45000000) \<and>
   parseInt_element (split_on CHR '':'' ''16:00'') 0 = Some 16 \<and>
   parseInt_element (split_on CHR '':'' ''16:00'') 1 = Some 0 \<and>
   (16 * 3600000 + 0 * 60000 :: int) < localTime example_env_east 43200000 mod msPerDay \<and>
   (\<exists>t. platform_schedule_time example_env_east 43200000 ''16:00'' = Some t \<and> 43200000 < t \<and>
        localTime example_env_east t div msPerDay
          = localTime example_env_east 43200000 div msPerDay + 1 \<and>
        localTime example_env_east t mod msPerDay = 16 * 3600000 + 0 * 60000) \<and>
   parseInt_element (split_on CHR '':'' ''18:00'') 0 = Some 18 \<and>
   parseInt_element (split_on CHR '':'' ''18:00'') 1 = Some 0 \<and>
   localTime example_env_east 43200000 mod msPerDay < 18 * 3600000 + 0 * 60000 \<and>
   (\<exists>t. platform_schedule_time example_env_east 43200000 ''18:00'' = Some t \<and> 43200000 \<le> t \<and>
        localTime example_env_east t div msPerDay = localTime example_env_east 43200000 div msPerDay \<and>
        localTime example_env_east t mod msPerDay = 18 * 3600000 + 0 * 60000)"
proof -
  let ?w = "advance 43200000 world0"
  let ?r = "schedulePlatformUploads example_env_east example_clip example_schedule
              new_UploadScheduler ?w"
  note A = schedulePlatformUploads_next_occurrence
             [where env = example_env_east and clip = example_clip and entries = example_schedule
                and sch = new_UploadScheduler and w = ?w
                and time = "''16:00''" and h = 16 and m = 0 and now = 43200000]
  note B = schedulePlatformUploads_next_occurrence
             [where env = example_env_east and clip = example_clip and entries = example_schedule
                and sch = new_UploadScheduler and w = ?w
                and time = "''18:00''" and h = 18 and m = 0 and now = 43200000]
  have p16: "parseInt_element (split_on CHR '':'' ''16:00'') 0 = Some 16"
            "parseInt_element (split_on CHR '':'' ''16:00'') 1 = Some 0"
    by (simp_all add: parseInt_element_def parseInt_def js_whitespace_def digit_value_def Let_def)
  have p18: "parseInt_element (split_on CHR '':'' ''18:00'') 0 = Some 18"
            "parseInt_element (split_on CHR '':'' ''18:00'') 1 = Some 0"
    by (simp_all add: parseInt_element_def parseInt_def js_whitespace_def digit_value_def Let_def)
  have past: "(16 * 3600000 + 0 * 60000 :: int) < localTime example_env_east 43200000 mod msPerDay"
    and future: "localTime example_env_east 43200000 mod msPerDay < 18 * 3600000 + 0 * 60000"
    by (simp_all add: msPerDay_def localTime_def example_env_east_def example_env_def)
  have t16: "\<exists>t. platform_schedule_time example_env_east 43200000 ''16:00'' = Some t \<and> 43200000 < t \<and>
        localTime example_env_east t div msPerDay
          = localTime example_env_east 43200000 div msPerDay + 1 \<and>
        localTime example_env_east t mod msPerDay = 16 * 3600000 + 0 * 60000"
    using A [THEN conjunct2] p16 past by simp
  have t18: "\<exists>t. platform_schedule_time example_env_east 43200000 ''18:00'' = Some t \<and> 43200000 \<le> t \<and>
        localTime example_env_east t div msPerDay = localTime example_env_east 43200000 div msPerDay \<and>
        localTime example_env_east t mod msPerDay = 18 * 3600000 + 0 * 60000"
    using B [THEN conjunct2] p18 future by simp
  have v16: "platform_schedule_time example_env_east 43200000 ''16:00'' = Some 124200000"
    using p16 by (simp add: platform_schedule_time_def setHours_def msPerDay_def Let_def
                    localTime_def example_env_east_def example_env_def)
  have v18: "platform_schedule_time example_env_east 43200000 ''18:00'' = Some 45000000"
    using p18 by (simp add: platform_schedule_time_def setHours_def msPerDay_def Let_def
                    localTime_def example_env_east_def example_env_def)
  have r: "distinct (map (random_suffix example_env_east) [draws ?w..<draws ?w + length example_schedule])"
    by (simp add: example_env_east_def example_env_def advance_def world0_def example_schedule_def
        upt_rec)
  have ids: "fst ?r = [(43200000, ''k3x9q2m1z''), (43200000, ''p7d4w8n5c'')]"
    by (simp add: schedulePlatformUploads_planned example_schedule_def example_env_east_def
        example_env_def advance_def world0_def)
  have c: "clock ?w = 43200000" by (simp add: advance_def world0_def)
  from A [THEN conjunct1] r
  have all: "\<forall>i<length example_schedule. \<exists>j.
            map_of (scheduledJobs (fst (snd ?r))) (fst ?r ! i) = Some j \<and> jobStatus j = Scheduled \<and>
            platforms (jobClip j) = [fst (example_schedule ! i)] \<and>
            jobScheduleTime j
              = platform_schedule_time example_env_east (clock ?w) (snd (example_schedule ! i))"
    by (simp add: split_def)
  have j0: "\<exists>j. map_of (scheduledJobs (fst (snd ?r))) (43200000, ''k3x9q2m1z'') = Some j \<and>
        jobStatus j = Scheduled \<and> platforms (jobClip j) = [''youtube''] \<and>
        jobScheduleTime j = Some 124200000"
    using all [rule_format, of 0] v16 c ids by (simp add: example_schedule_def)
  have j1: "\<exists>j. map_of (scheduledJobs (fst (snd ?r))) (43200000, ''p7d4w8n5c'') = Some j \<and>
        jobStatus j = Scheduled \<and> platforms (jobClip j) = [''tiktok''] \<and>
        jobScheduleTime j = Some 45000000"
    using all [rule_format, of 1] v18 c ids by (simp add: example_schedule_def)
  show ?thesis
    using r ids j0 j1 p16 past t16 p18 future t18 by blast
qed

section \<open>The scheduler: what a tick does to a job\<close>













end
